theory Spec2Isabelle
  imports Main "HOL-Library.Char_ord"
begin

section \<open>Values exchanged with the remote table API\<close>

text \<open>
  A decoded JSON document, as \<^verbatim>\<open>response.json()\<close> hands it to the handlers. A Python
  dict is an association list read with \<open>map_of\<close>. Numbers are the integers; numbers
  with a fraction do not occur in the properties below and are left out.
\<close>

datatype json =
    JNull
  | JBool bool
  | JInt int
  | JStr string
  | JList "json list"
  | JDict "(string \<times> json) list"

text \<open>
  The Python exceptions that the handlers do not catch: they leave the handler and reach
  its caller. \<^verbatim>\<open>requests.RequestException\<close> is not among them, it is an outcome of a
  remote call (see \<open>response\<close>).
\<close>

datatype exn = AttributeError | TypeError | KeyError | IndexError | ValidationError

text \<open>\<^verbatim>\<open>d.get(k)\<close> on a dict: the value, or \<^verbatim>\<open>None\<close>.\<close>

definition dict_get :: "(string \<times> json) list \<Rightarrow> string \<Rightarrow> json" where
  "dict_get d k = (case map_of d k of Some v \<Rightarrow> v | None \<Rightarrow> JNull)"

text \<open>
  \<^verbatim>\<open>x.get(k, default)\<close> on any decoded value: only a dict has the method, every other
  value raises \<^verbatim>\<open>AttributeError\<close>.
\<close>

definition py_get :: "json \<Rightarrow> string \<Rightarrow> json \<Rightarrow> exn + json" where
  "py_get x k dflt =
     (case x of
        JDict d \<Rightarrow> Inr (case map_of d k of Some v \<Rightarrow> v | None \<Rightarrow> dflt)
      | _ \<Rightarrow> Inl AttributeError)"

text \<open>Python truthiness, as \<^verbatim>\<open>if not result\<close> tests it.\<close>

fun truthy :: "json \<Rightarrow> bool" where
  "truthy JNull = False"
| "truthy (JBool b) = b"
| "truthy (JInt i) = (i \<noteq> 0)"
| "truthy (JStr s) = (s \<noteq> [])"
| "truthy (JList xs) = (xs \<noteq> [])"
| "truthy (JDict d) = (d \<noteq> [])"

text \<open>
  \<^verbatim>\<open>for task_data in x\<close>: a list yields its elements, a dict its keys, a string its
  characters; nothing else can be iterated.
\<close>

fun py_iter :: "json \<Rightarrow> exn + json list" where
  "py_iter (JList xs) = Inr xs"
| "py_iter (JDict d) = Inr (map JStr (remdups (map fst d)))"
| "py_iter (JStr s) = Inr (map (\<lambda>c. JStr [c]) s)"
| "py_iter _ = Inl TypeError"

text \<open>
  \<^verbatim>\<open>x[0]\<close>: the first element of a list, the first character of a string (an
  empty one raises \<^verbatim>\<open>IndexError\<close>); a decoded dict has string keys only, so the key
  \<open>0\<close> is missing; a number, a boolean or \<^verbatim>\<open>None\<close> cannot be subscripted.
\<close>

fun py_index0 :: "json \<Rightarrow> exn + json" where
  "py_index0 (JList []) = Inl IndexError"
| "py_index0 (JList (x # xs)) = Inr x"
| "py_index0 (JStr []) = Inl IndexError"
| "py_index0 (JStr (c # s)) = Inr (JStr [c])"
| "py_index0 (JDict d) = Inl KeyError"
| "py_index0 _ = Inl TypeError"

text \<open>
  \<^verbatim>\<open>str(x)\<close>, as an f-string applies it to a decoded value. The scalars are exact. The
  \<^verbatim>\<open>repr\<close> of a list or a dict is Python's own and is taken as a parameter.
\<close>

fun digit_str :: "nat \<Rightarrow> string" where
  "digit_str n = [char_of (48 + n)]"

fun str_nat :: "nat \<Rightarrow> string" where
  "str_nat n = (if n < 10 then digit_str n else str_nat (n div 10) @ digit_str (n mod 10))"

definition str_int :: "int \<Rightarrow> string" where
  "str_int i = (if i < 0 then CHR ''-'' # str_nat (nat (- i)) else str_nat (nat i))"

fun py_str :: "(json \<Rightarrow> string) \<Rightarrow> json \<Rightarrow> string" where
  "py_str repr JNull = ''None''"
| "py_str repr (JBool b) = (if b then ''True'' else ''False'')"
| "py_str repr (JInt i) = str_int i"
| "py_str repr (JStr s) = s"
| "py_str repr v = repr v"

text \<open>\<^verbatim>\<open>sep.join(xs)\<close>.\<close>

fun str_join :: "string \<Rightarrow> string list \<Rightarrow> string" where
  "str_join sep [] = []"
| "str_join sep [x] = x"
| "str_join sep (x # y # ys) = x @ sep @ str_join sep (y # ys)"

section \<open>The remote collaborator\<close>

datatype http_method = GET | PUT

datatype pval = PInt int | PStr string

text \<open>
  One call of \<^verbatim>\<open>requests.get\<close> or \<^verbatim>\<open>requests.put\<close>: the keyword arguments the handlers
  pass. A GET carries \<open>params\<close>, a PUT carries the \<^verbatim>\<open>json=\<close> body.
\<close>

record http_request =
  meth :: http_method
  url :: string
  params :: "(string \<times> pval) list option"
  body :: "(string \<times> json) list option"
  headers :: "(string \<times> string) list"
  timeout :: int

text \<open>
  What a call comes back with, after \<^verbatim>\<open>raise_for_status()\<close> and \<^verbatim>\<open>json()\<close>: either a
  \<^verbatim>\<open>requests.RequestException\<close> (a network error, a status outside 2xx; the string is
  \<^verbatim>\<open>str(e)\<close>) or the decoded body.
\<close>

datatype response = RequestException string | Response json

text \<open>
  The remote side answers a request knowing the requests made before it in the same
  handler run, so a PUT may be answered differently after a GET.
\<close>

type_synonym remote = "http_request list \<Rightarrow> http_request \<Rightarrow> response"

text \<open>
  \<^verbatim>\<open>ServerConfig\<close> and \<^verbatim>\<open>AuthManager\<close> are declared outside the files at hand; the
  handlers read \<^verbatim>\<open>config.api_url\<close>, \<^verbatim>\<open>config.timeout\<close> and the value of
  \<^verbatim>\<open>auth_manager.get_headers()\<close>, which are their fields here.
\<close>

record ServerConfig =
  api_url :: string
  cfg_timeout :: int

record AuthManager =
  get_headers :: "(string \<times> string) list"

section \<open>Parameter and response models\<close>

record ListCatalogTasksParams =
  limit :: int
  offset :: int
  state :: "string option"
  assigned_to :: "string option"
  assignment_group :: "string option"
  request :: "string option"
  query :: "string option"

record GetCatalogTaskParams =
  task_id :: string

record UpdateCatalogTaskParams =
  upd_task_id :: string
  upd_state :: "string option"
  upd_assigned_to :: "string option"
  upd_assignment_group :: "string option"
  upd_work_notes :: "string option"
  upd_close_notes :: "string option"

record CatalogTaskResponse =
  success :: bool
  message :: string
  resp_task_id :: "string option"
  resp_task_number :: "string option"

section \<open>list_catalog_tasks\<close>

text \<open>
  \<^verbatim>\<open>if params.f: filters.append(...)\<close>: a field that is \<^verbatim>\<open>None\<close> or the empty string is
  falsy and appends nothing.
\<close>

fun populated :: "string option \<Rightarrow> bool" where
  "populated None = False"
| "populated (Some s) = (s \<noteq> [])"

fun append_if :: "string list \<Rightarrow> string option \<Rightarrow> (string \<Rightarrow> string) \<Rightarrow> string list" where
  "append_if filters None f = filters"
| "append_if filters (Some s) f = (if s \<noteq> [] then filters @ [f s] else filters)"

definition list_filters :: "ListCatalogTasksParams \<Rightarrow> string list" where
  "list_filters p =
     (let filters = [];
          filters = append_if filters (state p) (\<lambda>s. ''state='' @ s);
          filters = append_if filters (assigned_to p) (\<lambda>s. ''assigned_to='' @ s);
          filters = append_if filters (assignment_group p) (\<lambda>s. ''assignment_group='' @ s);
          filters = append_if filters (request p) (\<lambda>s. ''request='' @ s);
          filters = append_if filters (query p)
                      (\<lambda>s. ''short_descriptionLIKE'' @ s @ ''^ORdescriptionLIKE'' @ s)
      in filters)"

definition list_query_params :: "ListCatalogTasksParams \<Rightarrow> (string \<times> pval) list" where
  "list_query_params p =
     [(''sysparm_limit'', PInt (limit p)),
      (''sysparm_offset'', PInt (offset p)),
      (''sysparm_display_value'', PStr ''true''),
      (''sysparm_exclude_reference_link'', PStr ''true'')]
     @ (if list_filters p \<noteq> []
        then [(''sysparm_query'', PStr (str_join ''^'' (list_filters p)))] else [])"

text \<open>
  A reference field arrives as a plain value or as an object:
  \<^verbatim>\<open>if isinstance(x, dict): x = x.get("display_value")\<close>.
\<close>

fun ref_display :: "json \<Rightarrow> json" where
  "ref_display (JDict d) = dict_get d ''display_value''"
| "ref_display v = v"

text \<open>
  \<^verbatim>\<open>task_data.get("request", {}).get("value") if isinstance(task_data.get("request"), dict)
  else task_data.get("request")\<close>
\<close>

fun ref_value :: "json \<Rightarrow> json" where
  "ref_value (JDict d) = dict_get d ''value''"
| "ref_value v = v"

text \<open>The body of the loop of \<^verbatim>\<open>list_catalog_tasks\<close> on one dict \<open>task_data\<close>.\<close>

definition list_task :: "(string \<times> json) list \<Rightarrow> (string \<times> json) list" where
  "list_task task_data =
     (let assigned_to = ref_display (dict_get task_data ''assigned_to'');
          assignment_group = ref_display (dict_get task_data ''assignment_group'');
          request_ref = ref_display (dict_get task_data ''request'')
      in [(''sys_id'', dict_get task_data ''sys_id''),
          (''number'', dict_get task_data ''number''),
          (''short_description'', dict_get task_data ''short_description''),
          (''description'', dict_get task_data ''description''),
          (''state'', dict_get task_data ''state''),
          (''assigned_to'', assigned_to),
          (''assignment_group'', assignment_group),
          (''request'', request_ref),
          (''request_sys_id'', ref_value (dict_get task_data ''request'')),
          (''created_on'', dict_get task_data ''sys_created_on''),
          (''updated_on'', dict_get task_data ''sys_updated_on''),
          (''due_date'', dict_get task_data ''due_date''),
          (''priority'', dict_get task_data ''priority'')])"

text \<open>
  The loop over the records: \<open>tasks\<close> is the list built so far. A record that is not a
  dict has no \<^verbatim>\<open>get\<close>, and the \<^verbatim>\<open>AttributeError\<close> ends the loop.
\<close>

fun list_loop :: "json list \<Rightarrow> json list \<Rightarrow> exn + json list" where
  "list_loop tasks [] = Inr tasks"
| "list_loop tasks (JDict task_data # rest) = list_loop (tasks @ [JDict (list_task task_data)]) rest"
| "list_loop tasks (v # rest) = Inl AttributeError"

text \<open>What the \<^verbatim>\<open>try\<close> block does with the decoded body.\<close>

definition list_result :: "json \<Rightarrow> exn + json" where
  "list_result data =
     (case py_get data ''result'' (JList []) of
        Inl e \<Rightarrow> Inl e
      | Inr result \<Rightarrow>
          (case py_iter result of
             Inl e \<Rightarrow> Inl e
           | Inr records \<Rightarrow>
               (case list_loop [] records of
                  Inl e \<Rightarrow> Inl e
                | Inr tasks \<Rightarrow>
                    Inr (JDict [(''success'', JBool True),
                                (''message'', JStr (''Found '' @ str_nat (length tasks) @ '' catalog tasks'')),
                                (''tasks'', JList tasks)]))))"

definition list_request :: "ServerConfig \<Rightarrow> AuthManager \<Rightarrow> ListCatalogTasksParams \<Rightarrow> http_request" where
  "list_request config auth_manager p =
     \<lparr>meth = GET, url = api_url config @ ''/table/sc_task'',
      params = Some (list_query_params p), body = None,
      headers = get_headers auth_manager, timeout = cfg_timeout config\<rparr>"

text \<open>
  A handler run yields the remote calls it made, in order, and either the value it
  returned (\<open>Inr\<close>) or the exception that left it (\<open>Inl\<close>).
\<close>

definition list_catalog_tasks ::
  "remote \<Rightarrow> ServerConfig \<Rightarrow> AuthManager \<Rightarrow> ListCatalogTasksParams \<Rightarrow> http_request list \<times> (exn + json)" where
  "list_catalog_tasks srv config auth_manager p =
     (let req = list_request config auth_manager p in
      case srv [] req of
        RequestException e \<Rightarrow>
          ([req], Inr (JDict [(''success'', JBool False),
                              (''message'', JStr (''Failed to list catalog tasks: '' @ e)),
                              (''tasks'', JList [])]))
      | Response data \<Rightarrow> ([req], list_result data))"

section \<open>get_catalog_task\<close>

text \<open>
  \<^verbatim>\<open>len(task_id) == 32 and all(c in "0123456789abcdef" for c in task_id)\<close>
\<close>

definition is_sys_id :: "string \<Rightarrow> bool" where
  "is_sys_id tid =
     (length tid = 32 \<and> list_all (\<lambda>c. c \<in> set ''0123456789abcdef'') tid)"

definition get_task :: "(string \<times> json) list \<Rightarrow> (string \<times> json) list" where
  "get_task task_data =
     (let assigned_to = ref_display (dict_get task_data ''assigned_to'');
          assignment_group = ref_display (dict_get task_data ''assignment_group'');
          request_ref = ref_display (dict_get task_data ''request'')
      in [(''sys_id'', dict_get task_data ''sys_id''),
          (''number'', dict_get task_data ''number''),
          (''short_description'', dict_get task_data ''short_description''),
          (''description'', dict_get task_data ''description''),
          (''state'', dict_get task_data ''state''),
          (''assigned_to'', assigned_to),
          (''assignment_group'', assignment_group),
          (''request'', request_ref),
          (''request_sys_id'', ref_value (dict_get task_data ''request'')),
          (''created_on'', dict_get task_data ''sys_created_on''),
          (''updated_on'', dict_get task_data ''sys_updated_on''),
          (''due_date'', dict_get task_data ''due_date''),
          (''priority'', dict_get task_data ''priority''),
          (''work_notes'', dict_get task_data ''work_notes''),
          (''close_notes'', dict_get task_data ''close_notes'')])"

text \<open>
  The part after the two lookups ("Process the task data"): \<open>task_data\<close> is whatever the
  lookup left there, and only a dict has \<^verbatim>\<open>get\<close>.
\<close>

fun get_found :: "(json \<Rightarrow> string) \<Rightarrow> string \<Rightarrow> json \<Rightarrow> exn + json" where
  "get_found repr tid (JDict task_data) =
     Inr (JDict [(''success'', JBool True),
                 (''message'', JStr (''Catalog task ''
                    @ py_str repr (case map_of task_data ''number'' of
                                     Some v \<Rightarrow> v | None \<Rightarrow> JStr tid)
                    @ '' found'')),
                 (''task'', JDict (get_task task_data))])"
| "get_found repr tid v = Inl AttributeError"

definition get_not_found :: "string \<Rightarrow> json" where
  "get_not_found tid =
     JDict [(''success'', JBool False),
            (''message'', JStr (''Catalog task not found: '' @ tid))]"

definition get_failed :: "string \<Rightarrow> json" where
  "get_failed e =
     JDict [(''success'', JBool False),
            (''message'', JStr (''Failed to fetch catalog task: '' @ e))]"

definition get_by_number_request :: "ServerConfig \<Rightarrow> AuthManager \<Rightarrow> string \<Rightarrow> http_request" where
  "get_by_number_request config auth_manager tid =
     \<lparr>meth = GET, url = api_url config @ ''/table/sc_task'',
      params = Some [(''sysparm_query'', PStr (''number='' @ tid)),
                     (''sysparm_limit'', PInt 1),
                     (''sysparm_display_value'', PStr ''true''),
                     (''sysparm_exclude_reference_link'', PStr ''true'')],
      body = None, headers = get_headers auth_manager, timeout = cfg_timeout config\<rparr>"

definition get_by_sys_id_request :: "ServerConfig \<Rightarrow> AuthManager \<Rightarrow> string \<Rightarrow> http_request" where
  "get_by_sys_id_request config auth_manager tid =
     \<lparr>meth = GET, url = api_url config @ ''/table/sc_task/'' @ tid,
      params = Some [(''sysparm_display_value'', PStr ''true''),
                     (''sysparm_exclude_reference_link'', PStr ''true'')],
      body = None, headers = get_headers auth_manager, timeout = cfg_timeout config\<rparr>"

text \<open>
  The source tests the shape of \<open>task_id\<close> twice, with the same outcome both times: a
  task number runs the first \<^verbatim>\<open>try\<close> block only, a sys_id the second only.
\<close>

definition get_catalog_task ::
  "remote \<Rightarrow> (json \<Rightarrow> string) \<Rightarrow> ServerConfig \<Rightarrow> AuthManager \<Rightarrow> GetCatalogTaskParams
     \<Rightarrow> http_request list \<times> (exn + json)" where
  "get_catalog_task srv repr config auth_manager p =
     (let tid = task_id p in
      if \<not> is_sys_id tid then
        (let req = get_by_number_request config auth_manager tid in
         case srv [] req of
           RequestException e \<Rightarrow> ([req], Inr (get_failed e))
         | Response data \<Rightarrow>
             ([req],
              case py_get data ''result'' (JList []) of
                Inl x \<Rightarrow> Inl x
              | Inr result \<Rightarrow>
                  if \<not> truthy result then Inr (get_not_found tid)
                  else (case py_index0 result of
                          Inl x \<Rightarrow> Inl x
                        | Inr task_data \<Rightarrow> get_found repr tid task_data)))
      else
        (let req = get_by_sys_id_request config auth_manager tid in
         case srv [] req of
           RequestException e \<Rightarrow> ([req], Inr (get_failed e))
         | Response data \<Rightarrow>
             ([req],
              case py_get data ''result'' (JDict []) of
                Inl x \<Rightarrow> Inl x
              | Inr task_data \<Rightarrow>
                  if \<not> truthy task_data then Inr (get_not_found tid)
                  else get_found repr tid task_data)))"

section \<open>update_catalog_task\<close>

text \<open>
  \<^verbatim>\<open>data = {}\<close>, then \<^verbatim>\<open>if params.f: data["f"] = params.f\<close> for each field in turn. The
  five keys differ, so every assignment adds an entry.
\<close>

fun put_if :: "(string \<times> json) list \<Rightarrow> string \<Rightarrow> string option \<Rightarrow> (string \<times> json) list" where
  "put_if data k None = data"
| "put_if data k (Some s) = (if s \<noteq> [] then data @ [(k, JStr s)] else data)"

definition update_data :: "UpdateCatalogTaskParams \<Rightarrow> (string \<times> json) list" where
  "update_data p =
     (let data = [];
          data = put_if data ''state'' (upd_state p);
          data = put_if data ''assigned_to'' (upd_assigned_to p);
          data = put_if data ''assignment_group'' (upd_assignment_group p);
          data = put_if data ''work_notes'' (upd_work_notes p);
          data = put_if data ''close_notes'' (upd_close_notes p)
      in data)"

text \<open>
  \<^verbatim>\<open>CatalogTaskResponse\<close> is a pydantic model, and \<open>task_id\<close> and \<open>task_number\<close> are
  \<^verbatim>\<open>Optional[str]\<close>: pydantic 2 takes \<^verbatim>\<open>None\<close> and a string and refuses every other
  decoded value with a \<^verbatim>\<open>ValidationError\<close>.
\<close>

fun optional_str :: "json \<Rightarrow> exn + string option" where
  "optional_str JNull = Inr None"
| "optional_str (JStr s) = Inr (Some s)"
| "optional_str v = Inl ValidationError"

definition update_failure :: "string \<Rightarrow> CatalogTaskResponse" where
  "update_failure msg =
     \<lparr>success = False, message = msg, resp_task_id = None, resp_task_number = None\<rparr>"

text \<open>What the second \<^verbatim>\<open>try\<close> block does with the decoded body of the PUT.\<close>

definition update_result :: "json \<Rightarrow> exn + CatalogTaskResponse" where
  "update_result data =
     (case py_get data ''result'' (JDict []) of
        Inl x \<Rightarrow> Inl x
      | Inr result \<Rightarrow>
          (case py_get result ''sys_id'' JNull of
             Inl x \<Rightarrow> Inl x
           | Inr sid \<Rightarrow>
               (case py_get result ''number'' JNull of
                  Inl x \<Rightarrow> Inl x
                | Inr num \<Rightarrow>
                    (case optional_str sid of
                       Inl x \<Rightarrow> Inl x
                     | Inr tid \<Rightarrow>
                         (case optional_str num of
                            Inl x \<Rightarrow> Inl x
                          | Inr tnum \<Rightarrow>
                              Inr \<lparr>success = True,
                                   message = ''Catalog task updated successfully'',
                                   resp_task_id = tid, resp_task_number = tnum\<rparr>)))))"

definition update_put_request ::
  "ServerConfig \<Rightarrow> AuthManager \<Rightarrow> string \<Rightarrow> UpdateCatalogTaskParams \<Rightarrow> http_request" where
  "update_put_request config auth_manager target p =
     \<lparr>meth = PUT, url = target, params = None, body = Some (update_data p),
      headers = get_headers auth_manager, timeout = cfg_timeout config\<rparr>"

text \<open>The part from "Build request data" on; \<open>made\<close> are the calls made before it.\<close>

definition update_put ::
  "remote \<Rightarrow> http_request list \<Rightarrow> ServerConfig \<Rightarrow> AuthManager \<Rightarrow> string \<Rightarrow> UpdateCatalogTaskParams
     \<Rightarrow> http_request list \<times> (exn + CatalogTaskResponse)" where
  "update_put srv made config auth_manager target p =
     (let req = update_put_request config auth_manager target p in
      case srv made req of
        RequestException e \<Rightarrow>
          (made @ [req], Inr (update_failure (''Failed to update catalog task: '' @ e)))
      | Response data \<Rightarrow> (made @ [req], update_result data))"

definition update_lookup_request :: "ServerConfig \<Rightarrow> AuthManager \<Rightarrow> string \<Rightarrow> http_request" where
  "update_lookup_request config auth_manager tid =
     \<lparr>meth = GET, url = api_url config @ ''/table/sc_task'',
      params = Some [(''sysparm_query'', PStr (''number='' @ tid)),
                     (''sysparm_limit'', PInt 1)],
      body = None, headers = get_headers auth_manager, timeout = cfg_timeout config\<rparr>"

definition update_catalog_task ::
  "remote \<Rightarrow> (json \<Rightarrow> string) \<Rightarrow> ServerConfig \<Rightarrow> AuthManager \<Rightarrow> UpdateCatalogTaskParams
     \<Rightarrow> http_request list \<times> (exn + CatalogTaskResponse)" where
  "update_catalog_task srv repr config auth_manager p =
     (let tid = upd_task_id p in
      if is_sys_id tid then
        update_put srv [] config auth_manager (api_url config @ ''/table/sc_task/'' @ tid) p
      else
        (let req = update_lookup_request config auth_manager tid in
         case srv [] req of
           RequestException e \<Rightarrow>
             ([req], Inr (update_failure (''Failed to find catalog task: '' @ e)))
         | Response data \<Rightarrow>
             (case py_get data ''result'' (JList []) of
                Inl x \<Rightarrow> ([req], Inl x)
              | Inr result \<Rightarrow>
                  if \<not> truthy result then
                    ([req], Inr (update_failure (''Catalog task not found: '' @ tid)))
                  else
                    (case py_index0 result of
                       Inl x \<Rightarrow> ([req], Inl x)
                     | Inr first \<Rightarrow>
                         (case py_get first ''sys_id'' JNull of
                            Inl x \<Rightarrow> ([req], Inl x)
                          | Inr sid \<Rightarrow>
                              update_put srv [req] config auth_manager
                                (api_url config @ ''/table/sc_task/'' @ py_str repr sid) p)))))"

section \<open>The SSE session endpoint\<close>

text \<open>
  \<open>handle_sse\<close> reads three headers with \<^verbatim>\<open>request.headers.get\<close>, here the lookup
  function \<open>hdrs\<close>, and passes what it read to \<^verbatim>\<open>MCPFactory.create_mcp_instance\<close>. A run
  yields the instances created, each with the arguments of its creation, and the HTTP
  reply returned, a status code and a JSON body, or \<open>None\<close> when the event stream was
  served instead.
\<close>

record mcp_instance =
  instance_url :: "string option"
  username :: "string option"
  password :: "string option"

definition create_mcp_instance :: "string option \<Rightarrow> string option \<Rightarrow> string option \<Rightarrow> mcp_instance" where
  "create_mcp_instance iu un pw = \<lparr>instance_url = iu, username = un, password = pw\<rparr>"

definition handle_sse :: "(string \<Rightarrow> string option) \<Rightarrow> mcp_instance list \<times> (nat \<times> json) option" where
  "handle_sse hdrs =
     (let iu = hdrs ''X-ServiceNow-Instance-URL'';
          un = hdrs ''X-ServiceNow-Username'';
          pw = hdrs ''X-ServiceNow-Password''
      in if \<not> list_all populated [iu, un, pw] then
           ([], Some (400, JDict [(''error'', JStr ''Missing required headers for ServiceNow connection'')]))
         else ([create_mcp_instance iu un pw], None))"

section \<open>Concrete inputs\<close>

text \<open>
  A configuration, a record and a remote side in the style of the repository's tests: the
  remote answers a query (a GET with \<^verbatim>\<open>sysparm_limit\<close>) with a one-record list, a GET
  of a single record with the record itself, and an update with the record.
\<close>

definition example_config :: ServerConfig where
  "example_config = \<lparr>api_url = ''https://test.service-now.com/api/now'', cfg_timeout = 30\<rparr>"

definition example_auth :: AuthManager where
  "example_auth = \<lparr>get_headers = [(''Authorization'', ''Bearer test_token'')]\<rparr>"

definition example_record :: "(string \<times> json) list" where
  "example_record =
     [(''sys_id'', JStr ''task123''),
      (''number'', JStr ''SCTASK0001639213''),
      (''short_description'', JStr ''Test Task''),
      (''assigned_to'', JDict [(''display_value'', JStr ''Abel Tuter''), (''value'', JStr ''user123'')]),
      (''request'', JStr ''REQ123''),
      (''sys_class_name'', JStr ''sc_task'')]"

definition example_remote :: remote where
  "example_remote made req =
     (case meth req of
        GET \<Rightarrow> Response (JDict [(''result'',
                 case params req of
                   None \<Rightarrow> JDict example_record
                 | Some ps \<Rightarrow>
                     if map_of ps ''sysparm_limit'' = None then JDict example_record
                     else JList [JDict example_record])])
      | PUT \<Rightarrow> Response (JDict [(''result'', JDict example_record)]))"

definition example_repr :: "json \<Rightarrow> string" where
  "example_repr v = ''<repr>''"

definition example_update :: UpdateCatalogTaskParams where
  "example_update =
     \<lparr>upd_task_id = ''SCTASK0001639213'', upd_state = Some ''3'', upd_assigned_to = None,
      upd_assignment_group = Some [], upd_work_notes = Some ''Updated notes'',
      upd_close_notes = None\<rparr>"

definition example_list :: ListCatalogTasksParams where
  "example_list =
     \<lparr>limit = 10, offset = 0, state = Some ''2'', assigned_to = None, assignment_group = Some [],
      request = None, query = Some ''vpn''\<rparr>"

definition empty_remote :: remote where
  "empty_remote made req = Response (JDict [(''result'', JList [])])"

definition unfiltered_list :: ListCatalogTasksParams where
  "unfiltered_list =
     \<lparr>limit = 10, offset = 0, state = None, assigned_to = None, assignment_group = None,
      request = None, query = None\<rparr>"

definition failing_remote :: remote where
  "failing_remote made req = RequestException ''503 Server Error: Service Unavailable''"

section \<open>Recognising a sys_id\<close>

lemma digit_range:
  assumes "CHR ''0'' \<le> c" "c \<le> CHR ''9''"
  shows "c \<in> set ''0123456789''"
proof -
  let ?n = "of_char c :: nat"
  have "48 \<le> ?n" "?n \<le> 57" using assms by (simp_all add: less_eq_char_def)
  then have "?n = 48 \<or> ?n = 49 \<or> ?n = 50 \<or> ?n = 51 \<or> ?n = 52 \<or> ?n = 53 \<or> ?n = 54
      \<or> ?n = 55 \<or> ?n = 56 \<or> ?n = 57" by arith
  then have "?n = of_char CHR ''0'' \<or> ?n = of_char CHR ''1'' \<or> ?n = of_char CHR ''2''
      \<or> ?n = of_char CHR ''3'' \<or> ?n = of_char CHR ''4'' \<or> ?n = of_char CHR ''5''
      \<or> ?n = of_char CHR ''6'' \<or> ?n = of_char CHR ''7'' \<or> ?n = of_char CHR ''8''
      \<or> ?n = of_char CHR ''9''" by simp
  then show ?thesis unfolding of_char_eq_iff by simp
qed

lemma letter_range:
  assumes "CHR ''a'' \<le> c" "c \<le> CHR ''f''"
  shows "c \<in> set ''abcdef''"
proof -
  let ?n = "of_char c :: nat"
  have "97 \<le> ?n" "?n \<le> 102" using assms by (simp_all add: less_eq_char_def)
  then have "?n = 97 \<or> ?n = 98 \<or> ?n = 99 \<or> ?n = 100 \<or> ?n = 101 \<or> ?n = 102" by arith
  then have "?n = of_char CHR ''a'' \<or> ?n = of_char CHR ''b'' \<or> ?n = of_char CHR ''c''
      \<or> ?n = of_char CHR ''d'' \<or> ?n = of_char CHR ''e'' \<or> ?n = of_char CHR ''f''" by simp
  then show ?thesis unfolding of_char_eq_iff by simp
qed

lemma hex_char_iff:
  "c \<in> set ''0123456789abcdef'' \<longleftrightarrow>
     (CHR ''0'' \<le> c \<and> c \<le> CHR ''9'') \<or> (CHR ''a'' \<le> c \<and> c \<le> CHR ''f'')"
proof
  assume "c \<in> set ''0123456789abcdef''"
  then show "(CHR ''0'' \<le> c \<and> c \<le> CHR ''9'') \<or> (CHR ''a'' \<le> c \<and> c \<le> CHR ''f'')"
    by (simp, elim disjE, simp_all add: less_eq_char_def)
next
  assume "(CHR ''0'' \<le> c \<and> c \<le> CHR ''9'') \<or> (CHR ''a'' \<le> c \<and> c \<le> CHR ''f'')"
  then have "c \<in> set ''0123456789'' \<or> c \<in> set ''abcdef''"
    using digit_range [of c] letter_range [of c] by blast
  then have "c \<in> set (''0123456789'' @ ''abcdef'')"
    unfolding set_append by blast
  then show "c \<in> set ''0123456789abcdef''" by simp
qed

lemma is_sys_id_iff:
  "is_sys_id tid \<longleftrightarrow>
     length tid = 32 \<and>
     (\<forall>c\<in>set tid. (CHR ''0'' \<le> c \<and> c \<le> CHR ''9'') \<or> (CHR ''a'' \<le> c \<and> c \<le> CHR ''f''))"
  by (simp add: is_sys_id_def list_all_iff hex_char_iff del: set_simps)

section \<open>The remote calls of a run\<close>

lemma list_catalog_tasks_calls:
  "fst (list_catalog_tasks srv config am lp) = [list_request config am lp]"
  by (simp add: list_catalog_tasks_def Let_def split: response.split)

lemma get_catalog_task_calls:
  "fst (get_catalog_task srv repr config am gp)
     = [if is_sys_id (task_id gp) then get_by_sys_id_request config am (task_id gp)
        else get_by_number_request config am (task_id gp)]"
  by (simp add: get_catalog_task_def Let_def split: response.split)

lemma update_put_calls:
  "fst (update_put srv made config am target up) = made @ [update_put_request config am target up]"
  by (simp add: update_put_def Let_def split: response.split)

section \<open>The filters of a listing\<close>

lemma append_if_eq:
  "append_if filters x f = filters @ (case x of None \<Rightarrow> [] | Some s \<Rightarrow> if s = [] then [] else [f s])"
  by (cases x) simp_all

lemma list_filters_eq:
  "list_filters p =
     (case state p of None \<Rightarrow> [] | Some s \<Rightarrow> if s = [] then [] else [''state='' @ s])
     @ (case assigned_to p of None \<Rightarrow> [] | Some s \<Rightarrow> if s = [] then [] else [''assigned_to='' @ s])
     @ (case assignment_group p of None \<Rightarrow> []
        | Some s \<Rightarrow> if s = [] then [] else [''assignment_group='' @ s])
     @ (case request p of None \<Rightarrow> [] | Some s \<Rightarrow> if s = [] then [] else [''request='' @ s])
     @ (case query p of None \<Rightarrow> []
        | Some s \<Rightarrow> if s = [] then [] else [''short_descriptionLIKE'' @ s @ ''^ORdescriptionLIKE'' @ s])"
  unfolding list_filters_def Let_def append_if_eq by simp

lemma populated_count:
  "length (case x of None \<Rightarrow> [] | Some s \<Rightarrow> if s = [] then [] else [f s])
     = (if populated x then 1 else 0)"
  by (cases x) simp_all

lemma list_filters_length:
  "length (list_filters p)
     = length (filter populated [state p, assigned_to p, assignment_group p, request p, query p])"
  unfolding list_filters_eq length_append populated_count by simp

lemma list_filters_empty_iff:
  "list_filters p = [] \<longleftrightarrow>
     \<not> populated (state p) \<and> \<not> populated (assigned_to p) \<and> \<not> populated (assignment_group p)
     \<and> \<not> populated (request p) \<and> \<not> populated (query p)"
proof -
  have "list_filters p = [] \<longleftrightarrow> length (list_filters p) = 0" by simp
  also have "\<dots> \<longleftrightarrow> filter populated [state p, assigned_to p, assignment_group p, request p, query p] = []"
    unfolding list_filters_length by simp
  also have "\<dots> \<longleftrightarrow> \<not> populated (state p) \<and> \<not> populated (assigned_to p) \<and> \<not> populated (assignment_group p)
     \<and> \<not> populated (request p) \<and> \<not> populated (query p)"
    unfolding filter_empty_conv by simp
  finally show ?thesis .
qed

lemma list_query_params_query:
  "map_of (list_query_params p) ''sysparm_query''
     = (if list_filters p = [] then None else Some (PStr (str_join ''^'' (list_filters p))))"
  by (simp add: list_query_params_def)

section \<open>The body of an update\<close>

lemma put_if_eq:
  "put_if data k x = data @ (case x of None \<Rightarrow> [] | Some s \<Rightarrow> if s = [] then [] else [(k, JStr s)])"
  by (cases x) simp_all

lemma update_data_eq:
  "update_data p =
     (case upd_state p of None \<Rightarrow> [] | Some s \<Rightarrow> if s = [] then [] else [(''state'', JStr s)])
     @ (case upd_assigned_to p of None \<Rightarrow> []
        | Some s \<Rightarrow> if s = [] then [] else [(''assigned_to'', JStr s)])
     @ (case upd_assignment_group p of None \<Rightarrow> []
        | Some s \<Rightarrow> if s = [] then [] else [(''assignment_group'', JStr s)])
     @ (case upd_work_notes p of None \<Rightarrow> []
        | Some s \<Rightarrow> if s = [] then [] else [(''work_notes'', JStr s)])
     @ (case upd_close_notes p of None \<Rightarrow> []
        | Some s \<Rightarrow> if s = [] then [] else [(''close_notes'', JStr s)])"
  unfolding update_data_def Let_def put_if_eq by simp

lemma entry_keys:
  "map fst (case x of None \<Rightarrow> [] | Some s \<Rightarrow> if s = [] then [] else [(k, JStr s)])
     = (if populated x then [k] else [])"
  by (cases x) simp_all

lemma entry_lookup:
  "map_of (case x of None \<Rightarrow> [] | Some s \<Rightarrow> if s = [] then [] else [(k, JStr s)]) k' = Some v
     \<longleftrightarrow> k' = k \<and> (\<exists>s. s \<noteq> [] \<and> x = Some s \<and> v = JStr s)"
  by (cases x) auto

lemma entry_member:
  "(k', v) \<in> set (case x of None \<Rightarrow> [] | Some s \<Rightarrow> if s = [] then [] else [(k, JStr s)])
     \<longleftrightarrow> k' = k \<and> (\<exists>s. (s \<noteq> [] \<and> v = JStr s) \<and> x = Some s)"
  by (cases x) auto

lemma five_fields:
  "(a1 \<and> (\<exists>s. Q s \<and> x1 = Some s)) \<or> (a2 \<and> (\<exists>s. Q s \<and> x2 = Some s))
     \<or> (a3 \<and> (\<exists>s. Q s \<and> x3 = Some s)) \<or> (a4 \<and> (\<exists>s. Q s \<and> x4 = Some s))
     \<or> (a5 \<and> (\<exists>s. Q s \<and> x5 = Some s))
   \<longleftrightarrow> (\<exists>s. Q s \<and> (a1 \<and> x1 = Some s \<or> a2 \<and> x2 = Some s \<or> a3 \<and> x3 = Some s
                     \<or> a4 \<and> x4 = Some s \<or> a5 \<and> x5 = Some s))"
  by blast

lemma update_data_distinct: "distinct (map fst (update_data p))"
  unfolding update_data_eq map_append entry_keys by simp

lemma update_data_lookup:
  "map_of (update_data p) k = Some v \<longleftrightarrow>
     (\<exists>s. s \<noteq> [] \<and> v = JStr s
        \<and> (k = ''state'' \<and> upd_state p = Some s
           \<or> k = ''assigned_to'' \<and> upd_assigned_to p = Some s
           \<or> k = ''assignment_group'' \<and> upd_assignment_group p = Some s
           \<or> k = ''work_notes'' \<and> upd_work_notes p = Some s
           \<or> k = ''close_notes'' \<and> upd_close_notes p = Some s))"
proof -
  have "map_of (update_data p) k = Some v \<longleftrightarrow> (k, v) \<in> set (update_data p)"
    using update_data_distinct [of p] by (metis map_of_eq_Some_iff)
  also have "\<dots> \<longleftrightarrow>
     (\<exists>s. s \<noteq> [] \<and> v = JStr s
        \<and> (k = ''state'' \<and> upd_state p = Some s
           \<or> k = ''assigned_to'' \<and> upd_assigned_to p = Some s
           \<or> k = ''assignment_group'' \<and> upd_assignment_group p = Some s
           \<or> k = ''work_notes'' \<and> upd_work_notes p = Some s
           \<or> k = ''close_notes'' \<and> upd_close_notes p = Some s))"
    unfolding update_data_eq set_append Un_iff entry_member
    by (subst five_fields) (simp only: conj_assoc)
  finally show ?thesis .
qed

lemma update_put_bodies:
  "r \<in> set (fst (update_catalog_task srv repr config am p)) \<Longrightarrow> meth r = PUT \<Longrightarrow>
     body r = Some (update_data p)"
  by (auto simp add: update_catalog_task_def update_put_calls update_put_request_def
      update_lookup_request_def Let_def split: response.splits sum.splits if_splits)

section \<open>The tasks built from the records\<close>

lemma list_loop_dicts:
  "list_loop tasks (map JDict tds) = Inr (tasks @ map (\<lambda>td. JDict (list_task td)) tds)"
  by (induction tds arbitrary: tasks) simp_all

lemma list_catalog_tasks_records:
  assumes "srv [] (list_request config am lp) = Response (JDict b)"
    and "map_of b ''result'' = Some (JList (map JDict tds))"
  shows "snd (list_catalog_tasks srv config am lp)
     = Inr (JDict [(''success'', JBool True),
                   (''message'', JStr (''Found '' @ str_nat (length tds) @ '' catalog tasks'')),
                   (''tasks'', JList (map JDict (map list_task tds)))])"
  using assms
  by (simp add: list_catalog_tasks_def list_result_def py_get_def list_loop_dicts Let_def comp_def
      del: str_nat.simps)

lemma get_by_number_record:
  assumes "\<not> is_sys_id (task_id gp)"
    and "srv [] (get_by_number_request config am (task_id gp)) = Response (JDict b)"
    and "map_of b ''result'' = Some (JList (JDict td # rest))"
  shows "snd (get_catalog_task srv repr config am gp)
     = Inr (JDict [(''success'', JBool True),
                   (''message'', JStr (''Catalog task ''
                      @ py_str repr (case map_of td ''number'' of
                                       Some v \<Rightarrow> v | None \<Rightarrow> JStr (task_id gp))
                      @ '' found'')),
                   (''task'', JDict (get_task td))])"
  using assms
  by (simp add: get_catalog_task_def py_get_def Let_def)

lemma get_by_sys_id_record:
  assumes "is_sys_id (task_id gp)"
    and "srv [] (get_by_sys_id_request config am (task_id gp)) = Response (JDict b)"
    and "map_of b ''result'' = Some (JDict td)" and "td \<noteq> []"
  shows "snd (get_catalog_task srv repr config am gp)
     = Inr (JDict [(''success'', JBool True),
                   (''message'', JStr (''Catalog task ''
                      @ py_str repr (case map_of td ''number'' of
                                       Some v \<Rightarrow> v | None \<Rightarrow> JStr (task_id gp))
                      @ '' found'')),
                   (''task'', JDict (get_task td))])"
  using assms
  by (simp add: get_catalog_task_def py_get_def Let_def)

lemma list_task_keys:
  "map fst (list_task td)
     = [''sys_id'', ''number'', ''short_description'', ''description'', ''state'',
        ''assigned_to'', ''assignment_group'', ''request'', ''request_sys_id'',
        ''created_on'', ''updated_on'', ''due_date'', ''priority'']"
  by (simp add: list_task_def Let_def)

lemma get_task_keys:
  "map fst (get_task td)
     = [''sys_id'', ''number'', ''short_description'', ''description'', ''state'',
        ''assigned_to'', ''assignment_group'', ''request'', ''request_sys_id'',
        ''created_on'', ''updated_on'', ''due_date'', ''priority'',
        ''work_notes'', ''close_notes'']"
  by (simp add: get_task_def Let_def)

lemma ref_display_object:
  "map_of td f = Some (JDict d) \<Longrightarrow> ref_display (dict_get td f) = dict_get d ''display_value''"
  by (simp add: dict_get_def)

lemma ref_display_other:
  "map_of td f = Some v \<Longrightarrow> \<forall>d. v \<noteq> JDict d \<Longrightarrow> ref_display (dict_get td f) = v"
  by (cases v) (simp_all add: dict_get_def)

lemma ref_display_missing:
  "map_of td f = None \<Longrightarrow> ref_display (dict_get td f) = JNull"
  by (simp add: dict_get_def)

lemma ref_value_missing:
  "map_of td f = None \<Longrightarrow> ref_value (dict_get td f) = JNull"
  by (simp add: dict_get_def)

lemma list_task_values:
  "map_of (list_task td) ''sys_id'' = Some (dict_get td ''sys_id'')"
  "map_of (list_task td) ''number'' = Some (dict_get td ''number'')"
  "map_of (list_task td) ''short_description'' = Some (dict_get td ''short_description'')"
  "map_of (list_task td) ''description'' = Some (dict_get td ''description'')"
  "map_of (list_task td) ''state'' = Some (dict_get td ''state'')"
  "map_of (list_task td) ''assigned_to'' = Some (ref_display (dict_get td ''assigned_to''))"
  "map_of (list_task td) ''assignment_group'' = Some (ref_display (dict_get td ''assignment_group''))"
  "map_of (list_task td) ''request'' = Some (ref_display (dict_get td ''request''))"
  "map_of (list_task td) ''request_sys_id'' = Some (ref_value (dict_get td ''request''))"
  "map_of (list_task td) ''created_on'' = Some (dict_get td ''sys_created_on'')"
  "map_of (list_task td) ''updated_on'' = Some (dict_get td ''sys_updated_on'')"
  "map_of (list_task td) ''due_date'' = Some (dict_get td ''due_date'')"
  "map_of (list_task td) ''priority'' = Some (dict_get td ''priority'')"
  by (simp_all add: list_task_def Let_def)

lemma get_task_values:
  "map_of (get_task td) ''sys_id'' = Some (dict_get td ''sys_id'')"
  "map_of (get_task td) ''number'' = Some (dict_get td ''number'')"
  "map_of (get_task td) ''short_description'' = Some (dict_get td ''short_description'')"
  "map_of (get_task td) ''description'' = Some (dict_get td ''description'')"
  "map_of (get_task td) ''state'' = Some (dict_get td ''state'')"
  "map_of (get_task td) ''assigned_to'' = Some (ref_display (dict_get td ''assigned_to''))"
  "map_of (get_task td) ''assignment_group'' = Some (ref_display (dict_get td ''assignment_group''))"
  "map_of (get_task td) ''request'' = Some (ref_display (dict_get td ''request''))"
  "map_of (get_task td) ''request_sys_id'' = Some (ref_value (dict_get td ''request''))"
  "map_of (get_task td) ''created_on'' = Some (dict_get td ''sys_created_on'')"
  "map_of (get_task td) ''updated_on'' = Some (dict_get td ''sys_updated_on'')"
  "map_of (get_task td) ''due_date'' = Some (dict_get td ''due_date'')"
  "map_of (get_task td) ''priority'' = Some (dict_get td ''priority'')"
  "map_of (get_task td) ''work_notes'' = Some (dict_get td ''work_notes'')"
  "map_of (get_task td) ''close_notes'' = Some (dict_get td ''close_notes'')"
  by (simp_all add: get_task_def Let_def)

lemma dict_get_missing: "map_of td k = None \<Longrightarrow> dict_get td k = JNull"
  by (simp add: dict_get_def)

lemma list_task_missing:
  assumes "(dst, src) \<in> set [(''sys_id'', ''sys_id''), (''number'', ''number''),
      (''short_description'', ''short_description''), (''description'', ''description''),
      (''state'', ''state''), (''assigned_to'', ''assigned_to''),
      (''assignment_group'', ''assignment_group''), (''request'', ''request''),
      (''request_sys_id'', ''request''), (''created_on'', ''sys_created_on''),
      (''updated_on'', ''sys_updated_on''), (''due_date'', ''due_date''),
      (''priority'', ''priority'')]"
    and "map_of td src = None"
  shows "map_of (list_task td) dst = Some JNull"
  using assms unfolding list.set insert_iff empty_iff prod.inject
  by (elim disjE conjE FalseE; hypsubst;
      simp only: list_task_values dict_get_missing ref_display.simps ref_value.simps)

lemma get_task_missing:
  assumes "(dst, src) \<in> set [(''sys_id'', ''sys_id''), (''number'', ''number''),
      (''short_description'', ''short_description''), (''description'', ''description''),
      (''state'', ''state''), (''assigned_to'', ''assigned_to''),
      (''assignment_group'', ''assignment_group''), (''request'', ''request''),
      (''request_sys_id'', ''request''), (''created_on'', ''sys_created_on''),
      (''updated_on'', ''sys_updated_on''), (''due_date'', ''due_date''),
      (''priority'', ''priority''), (''work_notes'', ''work_notes''),
      (''close_notes'', ''close_notes'')]"
    and "map_of td src = None"
  shows "map_of (get_task td) dst = Some JNull"
  using assms unfolding list.set insert_iff empty_iff prod.inject
  by (elim disjE conjE FalseE; hypsubst;
      simp only: get_task_values dict_get_missing ref_display.simps ref_value.simps)


lemma list_task_ref:
  assumes "f \<in> {''assigned_to'', ''assignment_group'', ''request''}"
  shows "map_of (list_task td) f = Some (ref_display (dict_get td f))"
  using assms by (elim insertE emptyE; hypsubst; simp only: list_task_values)

lemma get_task_ref:
  assumes "f \<in> {''assigned_to'', ''assignment_group'', ''request''}"
  shows "map_of (get_task td) f = Some (ref_display (dict_get td f))"
  using assms by (elim insertE emptyE; hypsubst; simp only: get_task_values)

section \<open>Failed remote calls\<close>

lemma update_put_failed:
  assumes "i < length (fst (update_put srv made config am target p))"
    and "length made \<le> i"
    and "srv (take i (fst (update_put srv made config am target p)))
           (fst (update_put srv made config am target p) ! i) = RequestException e"
  shows "snd (update_put srv made config am target p)
           = Inr (update_failure (''Failed to update catalog task: '' @ e))
         \<and> meth (fst (update_put srv made config am target p) ! i) = PUT"
proof -
  from assms(1,2) have i: "i = length made"
    by (simp add: update_put_calls)
  with assms(3) have "srv made (update_put_request config am target p) = RequestException e"
    by (simp add: update_put_calls)
  then show ?thesis
    by (simp add: i update_put_def update_put_request_def Let_def)
qed

lemma update_catalog_task_failed:
  assumes "i < length (fst (update_catalog_task srv repr config am p))"
    and "srv (take i (fst (update_catalog_task srv repr config am p)))
           (fst (update_catalog_task srv repr config am p) ! i) = RequestException e"
  shows "snd (update_catalog_task srv repr config am p)
           = Inr (update_failure
               ((case meth (fst (update_catalog_task srv repr config am p) ! i) of
                   GET \<Rightarrow> ''Failed to find catalog task: ''
                 | PUT \<Rightarrow> ''Failed to update catalog task: '') @ e))"
proof (cases "is_sys_id (upd_task_id p)")
  case True
  then have run: "update_catalog_task srv repr config am p
      = update_put srv [] config am (api_url config @ ''/table/sc_task/'' @ upd_task_id p) p"
    by (simp add: update_catalog_task_def)
  from assms show ?thesis
    unfolding run using update_put_failed [of i srv "[]" config am _ p e] by simp
next
  case False
  let ?req = "update_lookup_request config am (upd_task_id p)"
  show ?thesis
  proof (cases "srv [] ?req")
    case (RequestException e0)
    with False have run: "update_catalog_task srv repr config am p
        = ([?req], Inr (update_failure (''Failed to find catalog task: '' @ e0)))"
      by (simp add: update_catalog_task_def Let_def)
    from assms RequestException show ?thesis
      unfolding run by (simp add: update_lookup_request_def)
  next
    case (Response data)
    from False Response have "(\<exists>out. update_catalog_task srv repr config am p = ([?req], out))
        \<or> (\<exists>target. update_catalog_task srv repr config am p
            = update_put srv [?req] config am target p)"
      by (simp add: update_catalog_task_def Let_def split: sum.split) blast
    then consider
        (stopped) out where "update_catalog_task srv repr config am p = ([?req], out)"
      | (put) target where "update_catalog_task srv repr config am p
            = update_put srv [?req] config am target p"
      by blast
    then show ?thesis
    proof cases
      case stopped
      with assms Response show ?thesis by simp
    next
      case put
      from assms have i: "i < length (fst (update_put srv [?req] config am target p))"
        and failed: "srv (take i (fst (update_put srv [?req] config am target p)))
           (fst (update_put srv [?req] config am target p) ! i) = RequestException e"
        unfolding put by simp_all
      have "i \<noteq> 0"
      proof
        assume "i = 0"
        with failed Response show False
          by (simp add: update_put_calls)
      qed
      then have "length [?req] \<le> i" by simp
      from update_put_failed [OF i this failed] show ?thesis
        unfolding put by simp
    qed
  qed
qed

section \<open>The shape of the returned values\<close>

lemma list_result_shape:
  assumes "list_result data = Inr out"
  shows "\<exists>m ts. out = JDict [(''success'', JBool True), (''message'', JStr m), (''tasks'', JList ts)]"
  using assms by (auto simp add: list_result_def simp del: str_nat.simps split: sum.splits)

lemma get_found_shape:
  assumes "get_found repr tid task_data = Inr out"
  shows "\<exists>m t. out = JDict [(''success'', JBool True), (''message'', JStr m), (''task'', JDict t)]"
  using assms by (cases task_data) auto

lemma update_result_shape:
  assumes "update_result data = Inr out"
  shows "success out \<and> message out = ''Catalog task updated successfully''"
  using assms by (auto simp add: update_result_def split: sum.splits)

lemma update_put_shape:
  assumes "snd (update_put srv made config am target p) = Inr out"
  shows "(success out \<and> message out = ''Catalog task updated successfully'')
     \<or> (\<not> success out \<and> resp_task_id out = None \<and> resp_task_number out = None)"
  using assms update_result_shape
  by (auto simp add: update_put_def update_failure_def Let_def split: response.splits)

section \<open>Properties of the handlers\<close>

text \<open>
  C1. \<open>get_catalog_task\<close> and \<open>update_catalog_task\<close> take \<open>task_id\<close> for a sys_id
  exactly when it has 32 characters, each of them in \<open>0-9\<close> or \<open>a-f\<close>. Then the only
  request of \<open>get_catalog_task\<close>, and of \<open>update_catalog_task\<close>, goes to
  \<^verbatim>\<open>/table/sc_task/{task_id}\<close>. For every other \<open>task_id\<close> the first request of both is a
  GET on \<^verbatim>\<open>/table/sc_task\<close> with \<^verbatim>\<open>sysparm_query = number={task_id}\<close> and
  \<^verbatim>\<open>sysparm_limit = 1\<close>.
\<close>

theorem sys_id_routing:
  "(is_sys_id tid \<longleftrightarrow>
      length tid = 32 \<and>
      (\<forall>c\<in>set tid. (CHR ''0'' \<le> c \<and> c \<le> CHR ''9'') \<or> (CHR ''a'' \<le> c \<and> c \<le> CHR ''f'')))
   \<and> (is_sys_id tid \<longrightarrow>
        (\<exists>r. fst (get_catalog_task srv repr config am \<lparr>task_id = tid\<rparr>) = [r]
           \<and> meth r = GET \<and> url r = api_url config @ ''/table/sc_task/'' @ tid)
        \<and> (\<exists>r. fst (update_catalog_task srv repr config am (up\<lparr>upd_task_id := tid\<rparr>)) = [r]
           \<and> meth r = PUT \<and> url r = api_url config @ ''/table/sc_task/'' @ tid))
   \<and> (\<not> is_sys_id tid \<longrightarrow>
        (\<exists>r rest ps. fst (get_catalog_task srv repr config am \<lparr>task_id = tid\<rparr>) = r # rest
           \<and> meth r = GET \<and> url r = api_url config @ ''/table/sc_task''
           \<and> params r = Some ps
           \<and> map_of ps ''sysparm_query'' = Some (PStr (''number='' @ tid))
           \<and> map_of ps ''sysparm_limit'' = Some (PInt 1))
        \<and> (\<exists>r rest ps. fst (update_catalog_task srv repr config am (up\<lparr>upd_task_id := tid\<rparr>)) = r # rest
           \<and> meth r = GET \<and> url r = api_url config @ ''/table/sc_task''
           \<and> params r = Some ps
           \<and> map_of ps ''sysparm_query'' = Some (PStr (''number='' @ tid))
           \<and> map_of ps ''sysparm_limit'' = Some (PInt 1)))"
proof (intro conjI impI)
  show "is_sys_id tid \<longleftrightarrow>
      length tid = 32 \<and>
      (\<forall>c\<in>set tid. (CHR ''0'' \<le> c \<and> c \<le> CHR ''9'') \<or> (CHR ''a'' \<le> c \<and> c \<le> CHR ''f''))"
    by (rule is_sys_id_iff)
next
  assume "is_sys_id tid"
  then show "\<exists>r. fst (get_catalog_task srv repr config am \<lparr>task_id = tid\<rparr>) = [r]
           \<and> meth r = GET \<and> url r = api_url config @ ''/table/sc_task/'' @ tid"
    by (simp add: get_catalog_task_def get_by_sys_id_request_def Let_def split: response.split)
next
  assume "is_sys_id tid"
  then show "\<exists>r. fst (update_catalog_task srv repr config am (up\<lparr>upd_task_id := tid\<rparr>)) = [r]
           \<and> meth r = PUT \<and> url r = api_url config @ ''/table/sc_task/'' @ tid"
    by (simp add: update_catalog_task_def update_put_def update_put_request_def Let_def
        split: response.split)
next
  assume "\<not> is_sys_id tid"
  then show "\<exists>r rest ps. fst (get_catalog_task srv repr config am \<lparr>task_id = tid\<rparr>) = r # rest
           \<and> meth r = GET \<and> url r = api_url config @ ''/table/sc_task''
           \<and> params r = Some ps
           \<and> map_of ps ''sysparm_query'' = Some (PStr (''number='' @ tid))
           \<and> map_of ps ''sysparm_limit'' = Some (PInt 1)"
    by (simp add: get_catalog_task_def get_by_number_request_def Let_def split: response.split)
next
  assume "\<not> is_sys_id tid"
  then show "\<exists>r rest ps. fst (update_catalog_task srv repr config am (up\<lparr>upd_task_id := tid\<rparr>)) = r # rest
           \<and> meth r = GET \<and> url r = api_url config @ ''/table/sc_task''
           \<and> params r = Some ps
           \<and> map_of ps ''sysparm_query'' = Some (PStr (''number='' @ tid))
           \<and> map_of ps ''sysparm_limit'' = Some (PInt 1)"
    by (simp add: update_catalog_task_def update_lookup_request_def update_put_def Let_def
        split: response.split sum.split)
qed

theorem sys_id_routing_witness:
  "is_sys_id ''0123456789abcdef0123456789abcdef''
   \<and> (\<exists>r. fst (get_catalog_task example_remote example_repr example_config example_auth
                 \<lparr>task_id = ''0123456789abcdef0123456789abcdef''\<rparr>) = [r]
         \<and> meth r = GET
         \<and> url r = api_url example_config @ ''/table/sc_task/'' @ ''0123456789abcdef0123456789abcdef'')
   \<and> \<not> is_sys_id ''SCTASK0001639213''
   \<and> (\<exists>r rest ps. fst (update_catalog_task example_remote example_repr example_config example_auth
                 (example_update\<lparr>upd_task_id := ''SCTASK0001639213''\<rparr>)) = r # rest
         \<and> meth r = GET \<and> url r = api_url example_config @ ''/table/sc_task''
         \<and> params r = Some ps
         \<and> map_of ps ''sysparm_query'' = Some (PStr (''number='' @ ''SCTASK0001639213''))
         \<and> map_of ps ''sysparm_limit'' = Some (PInt 1))"
proof -
  have yes: "is_sys_id ''0123456789abcdef0123456789abcdef''"
    by (simp add: is_sys_id_def)
  have no: "\<not> is_sys_id ''SCTASK0001639213''"
    by (simp add: is_sys_id_def)
  show ?thesis
    using yes no
      sys_id_routing [where tid = "''0123456789abcdef0123456789abcdef''" and srv = example_remote
        and repr = example_repr and config = example_config and am = example_auth
        and up = example_update]
      sys_id_routing [where tid = "''SCTASK0001639213''" and srv = example_remote
        and repr = example_repr and config = example_config and am = example_auth
        and up = example_update]
    by blast
qed

text \<open>
  C2. When \<open>task_id\<close> is not shaped like a sys_id, \<open>update_catalog_task\<close> first issues
  the GET that looks the task up by number, and a PUT can only follow it: the run makes
  the lookup alone, or the lookup and then one PUT. When the lookup answers with an empty
  result list (or with no result at all), the run is the lookup alone and returns
  \<open>success = False\<close> with the message \<^verbatim>\<open>Catalog task not found: {task_id}\<close>.
\<close>

theorem update_by_number_resolves_first:
  assumes "\<not> is_sys_id (upd_task_id up)"
  shows "meth (update_lookup_request config am (upd_task_id up)) = GET
    \<and> url (update_lookup_request config am (upd_task_id up)) = api_url config @ ''/table/sc_task''
    \<and> params (update_lookup_request config am (upd_task_id up))
        = Some [(''sysparm_query'', PStr (''number='' @ upd_task_id up)), (''sysparm_limit'', PInt 1)]
    \<and> (fst (update_catalog_task srv repr config am up)
          = [update_lookup_request config am (upd_task_id up)]
        \<or> (\<exists>put. fst (update_catalog_task srv repr config am up)
                    = [update_lookup_request config am (upd_task_id up), put]
                  \<and> meth put = PUT))
    \<and> (\<forall>b. srv [] (update_lookup_request config am (upd_task_id up)) = Response (JDict b)
             \<and> (map_of b ''result'' = Some (JList []) \<or> map_of b ''result'' = None)
          \<longrightarrow> update_catalog_task srv repr config am up
               = ([update_lookup_request config am (upd_task_id up)],
                  Inr \<lparr>success = False,
                       message = ''Catalog task not found: '' @ upd_task_id up,
                       resp_task_id = None, resp_task_number = None\<rparr>))"
proof (intro conjI allI impI)
  show "meth (update_lookup_request config am (upd_task_id up)) = GET"
    by (simp add: update_lookup_request_def)
  show "url (update_lookup_request config am (upd_task_id up)) = api_url config @ ''/table/sc_task''"
    by (simp add: update_lookup_request_def)
  show "params (update_lookup_request config am (upd_task_id up))
        = Some [(''sysparm_query'', PStr (''number='' @ upd_task_id up)), (''sysparm_limit'', PInt 1)]"
    by (simp add: update_lookup_request_def)
  show "fst (update_catalog_task srv repr config am up)
          = [update_lookup_request config am (upd_task_id up)]
        \<or> (\<exists>put. fst (update_catalog_task srv repr config am up)
                    = [update_lookup_request config am (upd_task_id up), put]
                  \<and> meth put = PUT)"
    using assms
    by (simp add: update_catalog_task_def update_put_def update_put_request_def Let_def
        split: response.split sum.split)
next
  fix b
  assume "srv [] (update_lookup_request config am (upd_task_id up)) = Response (JDict b)
             \<and> (map_of b ''result'' = Some (JList []) \<or> map_of b ''result'' = None)"
  then show "update_catalog_task srv repr config am up
               = ([update_lookup_request config am (upd_task_id up)],
                  Inr \<lparr>success = False,
                       message = ''Catalog task not found: '' @ upd_task_id up,
                       resp_task_id = None, resp_task_number = None\<rparr>)"
    using assms
    by (auto simp add: update_catalog_task_def update_failure_def py_get_def Let_def)
qed


theorem update_by_number_resolves_first_witness:
  "\<not> is_sys_id (upd_task_id example_update)
   \<and> empty_remote [] (update_lookup_request example_config example_auth (upd_task_id example_update))
       = Response (JDict [(''result'', JList [])])
   \<and> update_catalog_task empty_remote example_repr example_config example_auth example_update
       = ([update_lookup_request example_config example_auth (upd_task_id example_update)],
          Inr \<lparr>success = False,
               message = ''Catalog task not found: '' @ upd_task_id example_update,
               resp_task_id = None, resp_task_number = None\<rparr>)"
proof -
  have shape: "\<not> is_sys_id (upd_task_id example_update)"
    by (simp add: example_update_def is_sys_id_def)
  have answer: "empty_remote [] (update_lookup_request example_config example_auth (upd_task_id example_update))
       = Response (JDict [(''result'', JList [])])"
    by (simp add: empty_remote_def)
  have "map_of [(''result'', JList [])] ''result'' = Some (JList [])"
    by simp
  with shape answer show ?thesis
    using update_by_number_resolves_first [OF shape, where config = example_config
        and am = example_auth and srv = empty_remote and repr = example_repr]
    by blast
qed

text \<open>
  C3 reads: every run of every handler makes exactly one remote call. An update by task
  number that finds its task makes two, the lookup and the PUT.
\<close>

theorem single_call_counterexample:
  "map meth (fst (update_catalog_task example_remote example_repr example_config example_auth
       example_update)) = [GET, PUT]
   \<and> length (fst (update_catalog_task example_remote example_repr example_config example_auth
       example_update)) \<noteq> 1"
  by (simp add: update_catalog_task_def update_put_def update_put_request_def
      update_lookup_request_def example_remote_def example_update_def is_sys_id_def
      py_get_def Let_def)

text \<open>
  C3, as the code has it. \<open>list_catalog_tasks\<close> and \<open>get_catalog_task\<close> make exactly one
  remote call in every run. \<open>update_catalog_task\<close> makes exactly one, the PUT, when
  \<open>task_id\<close> is shaped like a sys_id; otherwise it makes one GET, followed by at most one
  PUT, and it makes both whenever the lookup answers with a non-empty list of records. No
  call is made twice.
\<close>

theorem remote_call_counts:
  "length (fst (list_catalog_tasks srv config am lp)) = 1
   \<and> length (fst (get_catalog_task srv repr config am gp)) = 1
   \<and> (is_sys_id (upd_task_id up) \<longrightarrow>
        map meth (fst (update_catalog_task srv repr config am up)) = [PUT])
   \<and> (\<not> is_sys_id (upd_task_id up) \<longrightarrow>
        map meth (fst (update_catalog_task srv repr config am up)) = [GET]
        \<or> map meth (fst (update_catalog_task srv repr config am up)) = [GET, PUT])
   \<and> (\<not> is_sys_id (upd_task_id up)
        \<and> srv [] (update_lookup_request config am (upd_task_id up)) = Response (JDict b)
        \<and> map_of b ''result'' = Some (JList (JDict r # rs)) \<longrightarrow>
        map meth (fst (update_catalog_task srv repr config am up)) = [GET, PUT])"
proof (intro conjI impI)
  show "length (fst (list_catalog_tasks srv config am lp)) = 1"
    by (simp add: list_catalog_tasks_calls)
  show "length (fst (get_catalog_task srv repr config am gp)) = 1"
    by (simp add: get_catalog_task_calls)
next
  assume "is_sys_id (upd_task_id up)"
  then show "map meth (fst (update_catalog_task srv repr config am up)) = [PUT]"
    by (simp add: update_catalog_task_def update_put_calls update_put_request_def Let_def)
next
  assume "\<not> is_sys_id (upd_task_id up)"
  then show "map meth (fst (update_catalog_task srv repr config am up)) = [GET]
        \<or> map meth (fst (update_catalog_task srv repr config am up)) = [GET, PUT]"
    by (simp add: update_catalog_task_def update_put_calls update_put_request_def
        update_lookup_request_def Let_def split: response.split sum.split)
next
  assume "\<not> is_sys_id (upd_task_id up)
        \<and> srv [] (update_lookup_request config am (upd_task_id up)) = Response (JDict b)
        \<and> map_of b ''result'' = Some (JList (JDict r # rs))"
  then show "map meth (fst (update_catalog_task srv repr config am up)) = [GET, PUT]"
    by (simp add: update_catalog_task_def update_put_calls update_put_request_def
        update_lookup_request_def py_get_def Let_def)
qed

theorem remote_call_counts_witness:
  "is_sys_id ''0123456789abcdef0123456789abcdef''
   \<and> map meth (fst (update_catalog_task example_remote example_repr example_config example_auth
        (example_update\<lparr>upd_task_id := ''0123456789abcdef0123456789abcdef''\<rparr>))) = [PUT]
   \<and> \<not> is_sys_id (upd_task_id example_update)
   \<and> example_remote [] (update_lookup_request example_config example_auth (upd_task_id example_update))
       = Response (JDict [(''result'', JList [JDict example_record])])
   \<and> map meth (fst (update_catalog_task example_remote example_repr example_config example_auth
        example_update)) = [GET, PUT]"
proof -
  have yes: "is_sys_id (upd_task_id (example_update\<lparr>upd_task_id := ''0123456789abcdef0123456789abcdef''\<rparr>))"
    by (simp add: is_sys_id_def)
  have no: "\<not> is_sys_id (upd_task_id example_update)"
    by (simp add: example_update_def is_sys_id_def)
  have answer: "example_remote [] (update_lookup_request example_config example_auth (upd_task_id example_update))
       = Response (JDict [(''result'', JList [JDict example_record])])"
    by (simp add: example_remote_def update_lookup_request_def)
  have entry: "map_of [(''result'', JList [JDict example_record])] ''result''
       = Some (JList (JDict example_record # []))"
    by simp
  show ?thesis
    using yes no answer entry
      remote_call_counts [where up = "example_update\<lparr>upd_task_id := ''0123456789abcdef0123456789abcdef''\<rparr>"
        and srv = example_remote and repr = example_repr and config = example_config
        and am = example_auth]
      remote_call_counts [where up = example_update
        and srv = example_remote and repr = example_repr and config = example_config
        and am = example_auth and b = "[(''result'', JList [JDict example_record])]"
        and r = example_record and rs = "[]"]
    by simp
qed

text \<open>
  C4. \<open>list_catalog_tasks\<close> issues one GET on \<^verbatim>\<open>/table/sc_task\<close>. A filter field is
  populated when it holds a non-empty string. With none of \<open>state\<close>, \<open>assigned_to\<close>,
  \<open>assignment_group\<close>, \<open>request\<close> and \<open>query\<close> populated, the GET has no
  \<^verbatim>\<open>sysparm_query\<close> key. Otherwise \<^verbatim>\<open>sysparm_query\<close> is the caret-join of one predicate
  for each populated field, in that order: an equality on the field for the first four, the
  LIKE predicate on the two descriptions for \<open>query\<close>; there are as many predicates as
  populated fields.
\<close>

theorem list_query_filters:
  "\<exists>r qp. fst (list_catalog_tasks srv config am p) = [r] \<and> meth r = GET
      \<and> url r = api_url config @ ''/table/sc_task'' \<and> params r = Some qp
      \<and> (\<not> populated (state p) \<and> \<not> populated (assigned_to p) \<and> \<not> populated (assignment_group p)
           \<and> \<not> populated (request p) \<and> \<not> populated (query p)
          \<longrightarrow> map_of qp ''sysparm_query'' = None)
      \<and> (populated (state p) \<or> populated (assigned_to p) \<or> populated (assignment_group p)
           \<or> populated (request p) \<or> populated (query p)
          \<longrightarrow> map_of qp ''sysparm_query'' = Some (PStr (str_join ''^''
                ((case state p of None \<Rightarrow> [] | Some s \<Rightarrow> if s = [] then [] else [''state='' @ s])
                 @ (case assigned_to p of None \<Rightarrow> []
                    | Some s \<Rightarrow> if s = [] then [] else [''assigned_to='' @ s])
                 @ (case assignment_group p of None \<Rightarrow> []
                    | Some s \<Rightarrow> if s = [] then [] else [''assignment_group='' @ s])
                 @ (case request p of None \<Rightarrow> []
                    | Some s \<Rightarrow> if s = [] then [] else [''request='' @ s])
                 @ (case query p of None \<Rightarrow> []
                    | Some s \<Rightarrow> if s = [] then []
                               else [''short_descriptionLIKE'' @ s @ ''^ORdescriptionLIKE'' @ s])))))
      \<and> length (list_filters p)
          = length (filter populated [state p, assigned_to p, assignment_group p, request p, query p])"
proof -
  let ?r = "list_request config am p"
  have calls: "fst (list_catalog_tasks srv config am p) = [?r]"
    by (rule list_catalog_tasks_calls)
  have shape: "meth ?r = GET" "url ?r = api_url config @ ''/table/sc_task''"
    "params ?r = Some (list_query_params p)"
    by (simp_all add: list_request_def)
  have none: "map_of (list_query_params p) ''sysparm_query'' = None"
    if "\<not> populated (state p) \<and> \<not> populated (assigned_to p) \<and> \<not> populated (assignment_group p)
           \<and> \<not> populated (request p) \<and> \<not> populated (query p)"
    using that list_filters_empty_iff [of p] by (simp add: list_query_params_query)
  have some: "map_of (list_query_params p) ''sysparm_query''
       = Some (PStr (str_join ''^'' (list_filters p)))"
    if "populated (state p) \<or> populated (assigned_to p) \<or> populated (assignment_group p)
           \<or> populated (request p) \<or> populated (query p)"
    using that list_filters_empty_iff [of p] by (auto simp add: list_query_params_query)
  have some': "map_of (list_query_params p) ''sysparm_query''
       = Some (PStr (str_join ''^''
                ((case state p of None \<Rightarrow> [] | Some s \<Rightarrow> if s = [] then [] else [''state='' @ s])
                 @ (case assigned_to p of None \<Rightarrow> []
                    | Some s \<Rightarrow> if s = [] then [] else [''assigned_to='' @ s])
                 @ (case assignment_group p of None \<Rightarrow> []
                    | Some s \<Rightarrow> if s = [] then [] else [''assignment_group='' @ s])
                 @ (case request p of None \<Rightarrow> []
                    | Some s \<Rightarrow> if s = [] then [] else [''request='' @ s])
                 @ (case query p of None \<Rightarrow> []
                    | Some s \<Rightarrow> if s = [] then []
                               else [''short_descriptionLIKE'' @ s @ ''^ORdescriptionLIKE'' @ s]))))"
    if "populated (state p) \<or> populated (assigned_to p) \<or> populated (assignment_group p)
           \<or> populated (request p) \<or> populated (query p)"
    using some [OF that] by (simp only: list_filters_eq [symmetric])
  from calls shape none some' list_filters_length [of p] show ?thesis
    by blast
qed


theorem list_query_filters_witness:
  "\<not> populated (state unfiltered_list) \<and> \<not> populated (assigned_to unfiltered_list)
   \<and> \<not> populated (assignment_group unfiltered_list) \<and> \<not> populated (request unfiltered_list)
   \<and> \<not> populated (query unfiltered_list)
   \<and> (\<exists>r qp. fst (list_catalog_tasks example_remote example_config example_auth unfiltered_list) = [r]
         \<and> params r = Some qp \<and> map_of qp ''sysparm_query'' = None)
   \<and> populated (state example_list)
   \<and> (\<exists>r qp. fst (list_catalog_tasks example_remote example_config example_auth example_list) = [r]
         \<and> params r = Some qp
         \<and> map_of qp ''sysparm_query''
             = Some (PStr ''state=2^short_descriptionLIKEvpn^ORdescriptionLIKEvpn''))"
proof -
  have off: "\<not> populated (state unfiltered_list)" "\<not> populated (assigned_to unfiltered_list)"
    "\<not> populated (assignment_group unfiltered_list)" "\<not> populated (request unfiltered_list)"
    "\<not> populated (query unfiltered_list)"
    by (simp_all add: unfiltered_list_def)
  have on: "populated (state example_list)"
    by (simp add: example_list_def)
  have joined: "str_join ''^''
      ((case state example_list of None \<Rightarrow> [] | Some s \<Rightarrow> if s = [] then [] else [''state='' @ s])
       @ (case assigned_to example_list of None \<Rightarrow> []
          | Some s \<Rightarrow> if s = [] then [] else [''assigned_to='' @ s])
       @ (case assignment_group example_list of None \<Rightarrow> []
          | Some s \<Rightarrow> if s = [] then [] else [''assignment_group='' @ s])
       @ (case request example_list of None \<Rightarrow> []
          | Some s \<Rightarrow> if s = [] then [] else [''request='' @ s])
       @ (case query example_list of None \<Rightarrow> []
          | Some s \<Rightarrow> if s = [] then []
                     else [''short_descriptionLIKE'' @ s @ ''^ORdescriptionLIKE'' @ s]))
      = ''state=2^short_descriptionLIKEvpn^ORdescriptionLIKEvpn''"
    by (simp add: example_list_def)
  show ?thesis
    using off on
      list_query_filters [where p = unfiltered_list and srv = example_remote
        and config = example_config and am = example_auth]
      list_query_filters [where p = example_list and srv = example_remote
        and config = example_config and am = example_auth]
    unfolding joined
    by blast
qed

text \<open>
  C7. When one of the headers \<^verbatim>\<open>X-ServiceNow-Instance-URL\<close>, \<^verbatim>\<open>X-ServiceNow-Username\<close>,
  \<^verbatim>\<open>X-ServiceNow-Password\<close> is missing from a session request, \<open>handle_sse\<close> returns
  status 400 with a JSON error body and creates no MCP instance.
\<close>

theorem missing_header_rejected:
  assumes "hdrs ''X-ServiceNow-Instance-URL'' = None \<or> hdrs ''X-ServiceNow-Username'' = None
     \<or> hdrs ''X-ServiceNow-Password'' = None"
  shows "handle_sse hdrs
     = ([], Some (400, JDict [(''error'', JStr ''Missing required headers for ServiceNow connection'')]))"
  using assms by (auto simp add: handle_sse_def Let_def)

theorem missing_header_rejected_witness:
  "map_of [(''X-ServiceNow-Instance-URL'', ''https://dev.service-now.com''),
           (''X-ServiceNow-Username'', ''admin'')] ''X-ServiceNow-Password'' = None
   \<and> handle_sse (map_of [(''X-ServiceNow-Instance-URL'', ''https://dev.service-now.com''),
                         (''X-ServiceNow-Username'', ''admin'')])
       = ([], Some (400, JDict [(''error'', JStr ''Missing required headers for ServiceNow connection'')]))"
proof -
  have gone: "map_of [(''X-ServiceNow-Instance-URL'', ''https://dev.service-now.com''),
           (''X-ServiceNow-Username'', ''admin'')] ''X-ServiceNow-Password'' = None"
    by simp
  then have "map_of [(''X-ServiceNow-Instance-URL'', ''https://dev.service-now.com''),
           (''X-ServiceNow-Username'', ''admin'')] ''X-ServiceNow-Instance-URL'' = None
     \<or> map_of [(''X-ServiceNow-Instance-URL'', ''https://dev.service-now.com''),
           (''X-ServiceNow-Username'', ''admin'')] ''X-ServiceNow-Username'' = None
     \<or> map_of [(''X-ServiceNow-Instance-URL'', ''https://dev.service-now.com''),
           (''X-ServiceNow-Username'', ''admin'')] ''X-ServiceNow-Password'' = None"
    by (intro disjI2)
  from missing_header_rejected [OF this] gone show ?thesis
    by (intro conjI)
qed

text \<open>
  C9. Every PUT that \<open>update_catalog_task\<close> sends carries a body with exactly those of
  the keys \<open>state\<close>, \<open>assigned_to\<close>, \<open>assignment_group\<close>, \<open>work_notes\<close> and
  \<open>close_notes\<close> whose parameter holds a non-empty string, each with that string as its
  value. A parameter that is \<^verbatim>\<open>None\<close> or empty has no entry in the body.
\<close>

theorem update_body_fields:
  "\<forall>r\<in>set (fst (update_catalog_task srv repr config am p)). meth r = PUT \<longrightarrow>
     (\<exists>b. body r = Some b \<and> distinct (map fst b)
        \<and> (\<forall>k v. map_of b k = Some v \<longleftrightarrow>
              (\<exists>s. s \<noteq> [] \<and> v = JStr s
                 \<and> (k = ''state'' \<and> upd_state p = Some s
                    \<or> k = ''assigned_to'' \<and> upd_assigned_to p = Some s
                    \<or> k = ''assignment_group'' \<and> upd_assignment_group p = Some s
                    \<or> k = ''work_notes'' \<and> upd_work_notes p = Some s
                    \<or> k = ''close_notes'' \<and> upd_close_notes p = Some s))))"
proof (intro ballI impI)
  fix r
  assume "r \<in> set (fst (update_catalog_task srv repr config am p))" "meth r = PUT"
  then have "body r = Some (update_data p)"
    by (rule update_put_bodies)
  with update_data_distinct [of p] update_data_lookup [of p] show "\<exists>b. body r = Some b \<and> distinct (map fst b)
        \<and> (\<forall>k v. map_of b k = Some v \<longleftrightarrow>
              (\<exists>s. s \<noteq> [] \<and> v = JStr s
                 \<and> (k = ''state'' \<and> upd_state p = Some s
                    \<or> k = ''assigned_to'' \<and> upd_assigned_to p = Some s
                    \<or> k = ''assignment_group'' \<and> upd_assignment_group p = Some s
                    \<or> k = ''work_notes'' \<and> upd_work_notes p = Some s
                    \<or> k = ''close_notes'' \<and> upd_close_notes p = Some s)))"
    by blast
qed


theorem update_body_fields_witness:
  "update_put_request example_config example_auth
       (api_url example_config @ ''/table/sc_task/task123'') example_update
     \<in> set (fst (update_catalog_task example_remote example_repr example_config example_auth
                 example_update))
   \<and> meth (update_put_request example_config example_auth
       (api_url example_config @ ''/table/sc_task/task123'') example_update) = PUT
   \<and> body (update_put_request example_config example_auth
       (api_url example_config @ ''/table/sc_task/task123'') example_update)
       = Some [(''state'', JStr ''3''), (''work_notes'', JStr ''Updated notes'')]
   \<and> (\<exists>b. body (update_put_request example_config example_auth
               (api_url example_config @ ''/table/sc_task/task123'') example_update) = Some b
        \<and> distinct (map fst b)
        \<and> (\<forall>k v. map_of b k = Some v \<longleftrightarrow>
              (\<exists>s. s \<noteq> [] \<and> v = JStr s
                 \<and> (k = ''state'' \<and> upd_state example_update = Some s
                    \<or> k = ''assigned_to'' \<and> upd_assigned_to example_update = Some s
                    \<or> k = ''assignment_group'' \<and> upd_assignment_group example_update = Some s
                    \<or> k = ''work_notes'' \<and> upd_work_notes example_update = Some s
                    \<or> k = ''close_notes'' \<and> upd_close_notes example_update = Some s))))"
proof -
  let ?put = "update_put_request example_config example_auth
       (api_url example_config @ ''/table/sc_task/task123'') example_update"
  have sent: "?put \<in> set (fst (update_catalog_task example_remote example_repr example_config
      example_auth example_update))"
    by (simp add: update_catalog_task_def update_put_calls update_lookup_request_def
        example_remote_def example_update_def example_record_def is_sys_id_def py_get_def Let_def)
  have put: "meth ?put = PUT"
    by (simp add: update_put_request_def)
  have sent_body: "body ?put = Some [(''state'', JStr ''3''), (''work_notes'', JStr ''Updated notes'')]"
    by (simp add: update_put_request_def update_data_def example_update_def)
  from sent put sent_body
    update_body_fields [where srv = example_remote and repr = example_repr
      and config = example_config and am = example_auth and p = example_update]
  show ?thesis
    by blast
qed

text \<open>
  C5. Let \<open>f\<close> be one of the reference fields \<open>assigned_to\<close>, \<open>assignment_group\<close> and
  \<open>request\<close>. When the remote table answers \<open>list_catalog_tasks\<close> with a list of records,
  the handler returns one task for each record, in order, and when it answers
  \<open>get_catalog_task\<close> with a record (the first of the list for a lookup by number, the
  record itself for a lookup by sys_id), the handler returns the task of that record. In
  both, a record whose \<open>f\<close> is an object gives a task whose \<open>f\<close> is the object's
  \<open>display_value\<close> (null when the object has none), and a record whose \<open>f\<close> is anything
  else gives a task with that value unchanged.
\<close>

theorem reference_fields_normalised:
  assumes "f \<in> {''assigned_to'', ''assignment_group'', ''request''}"
  shows "(srv [] (list_request config am lp) = Response (JDict b)
          \<and> map_of b ''result'' = Some (JList (map JDict tds)) \<longrightarrow>
          (\<exists>ts. snd (list_catalog_tasks srv config am lp)
                  = Inr (JDict [(''success'', JBool True),
                                (''message'', JStr (''Found '' @ str_nat (length tds) @ '' catalog tasks'')),
                                (''tasks'', JList (map JDict ts))])
             \<and> length ts = length tds
             \<and> (\<forall>i<length tds.
                   (\<forall>d. map_of (tds ! i) f = Some (JDict d)
                      \<longrightarrow> map_of (ts ! i) f = Some (dict_get d ''display_value''))
                   \<and> (\<forall>v. map_of (tds ! i) f = Some v \<and> (\<forall>d. v \<noteq> JDict d)
                      \<longrightarrow> map_of (ts ! i) f = Some v))))
     \<and> (((\<not> is_sys_id (task_id gp)
            \<and> srv [] (get_by_number_request config am (task_id gp)) = Response (JDict b')
            \<and> map_of b' ''result'' = Some (JList (JDict td # rest)))
          \<or> (is_sys_id (task_id gp)
            \<and> srv [] (get_by_sys_id_request config am (task_id gp)) = Response (JDict b')
            \<and> map_of b' ''result'' = Some (JDict td) \<and> td \<noteq> [])) \<longrightarrow>
          (\<exists>t m. snd (get_catalog_task srv repr config am gp)
                  = Inr (JDict [(''success'', JBool True), (''message'', JStr m),
                                (''task'', JDict t)])
             \<and> (\<forall>d. map_of td f = Some (JDict d)
                   \<longrightarrow> map_of t f = Some (dict_get d ''display_value''))
             \<and> (\<forall>v. map_of td f = Some v \<and> (\<forall>d. v \<noteq> JDict d)
                   \<longrightarrow> map_of t f = Some v)))"
proof (intro conjI impI)
  assume listed: "srv [] (list_request config am lp) = Response (JDict b)
          \<and> map_of b ''result'' = Some (JList (map JDict tds))"
  have fields: "(\<forall>d. map_of (tds ! i) f = Some (JDict d)
                  \<longrightarrow> map_of (map list_task tds ! i) f = Some (dict_get d ''display_value''))
              \<and> (\<forall>v. map_of (tds ! i) f = Some v \<and> (\<forall>d. v \<noteq> JDict d)
                  \<longrightarrow> map_of (map list_task tds ! i) f = Some v)"
    if "i < length tds" for i
    using that by (simp add: list_task_ref [OF assms] ref_display_object ref_display_other)
  have "snd (list_catalog_tasks srv config am lp)
     = Inr (JDict [(''success'', JBool True),
                   (''message'', JStr (''Found '' @ str_nat (length tds) @ '' catalog tasks'')),
                   (''tasks'', JList (map JDict (map list_task tds)))])"
    using listed list_catalog_tasks_records [of srv config am lp b tds] by blast
  moreover have "length (map list_task tds) = length tds"
    by simp
  ultimately show "\<exists>ts. snd (list_catalog_tasks srv config am lp)
                  = Inr (JDict [(''success'', JBool True),
                                (''message'', JStr (''Found '' @ str_nat (length tds) @ '' catalog tasks'')),
                                (''tasks'', JList (map JDict ts))])
             \<and> length ts = length tds
             \<and> (\<forall>i<length tds.
                   (\<forall>d. map_of (tds ! i) f = Some (JDict d)
                      \<longrightarrow> map_of (ts ! i) f = Some (dict_get d ''display_value''))
                   \<and> (\<forall>v. map_of (tds ! i) f = Some v \<and> (\<forall>d. v \<noteq> JDict d)
                      \<longrightarrow> map_of (ts ! i) f = Some v))"
    using fields by blast
next
  assume got: "(\<not> is_sys_id (task_id gp)
            \<and> srv [] (get_by_number_request config am (task_id gp)) = Response (JDict b')
            \<and> map_of b' ''result'' = Some (JList (JDict td # rest)))
          \<or> (is_sys_id (task_id gp)
            \<and> srv [] (get_by_sys_id_request config am (task_id gp)) = Response (JDict b')
            \<and> map_of b' ''result'' = Some (JDict td) \<and> td \<noteq> [])"
  have fields: "(\<forall>d. map_of td f = Some (JDict d)
                  \<longrightarrow> map_of (get_task td) f = Some (dict_get d ''display_value''))
              \<and> (\<forall>v. map_of td f = Some v \<and> (\<forall>d. v \<noteq> JDict d)
                  \<longrightarrow> map_of (get_task td) f = Some v)"
    by (simp add: get_task_ref [OF assms] ref_display_object ref_display_other)
  from got have "snd (get_catalog_task srv repr config am gp)
     = Inr (JDict [(''success'', JBool True),
                   (''message'', JStr (''Catalog task ''
                      @ py_str repr (case map_of td ''number'' of
                                       Some v \<Rightarrow> v | None \<Rightarrow> JStr (task_id gp))
                      @ '' found'')),
                   (''task'', JDict (get_task td))])"
    using get_by_number_record [of gp srv config am b' td rest repr]
      get_by_sys_id_record [of gp srv config am b' td repr]
    by blast
  with fields show "\<exists>t m. snd (get_catalog_task srv repr config am gp)
                  = Inr (JDict [(''success'', JBool True), (''message'', JStr m),
                                (''task'', JDict t)])
             \<and> (\<forall>d. map_of td f = Some (JDict d)
                   \<longrightarrow> map_of t f = Some (dict_get d ''display_value''))
             \<and> (\<forall>v. map_of td f = Some v \<and> (\<forall>d. v \<noteq> JDict d)
                   \<longrightarrow> map_of t f = Some v)"
    by blast
qed


theorem reference_fields_normalised_witness:
  "''assigned_to'' \<in> {''assigned_to'', ''assignment_group'', ''request''}
   \<and> example_remote [] (list_request example_config example_auth example_list)
       = Response (JDict [(''result'', JList (map JDict [example_record]))])
   \<and> map_of example_record ''assigned_to''
       = Some (JDict [(''display_value'', JStr ''Abel Tuter''), (''value'', JStr ''user123'')])
   \<and> (\<exists>ts. snd (list_catalog_tasks example_remote example_config example_auth example_list)
              = Inr (JDict [(''success'', JBool True),
                            (''message'', JStr (''Found '' @ str_nat (length [example_record])
                                                @ '' catalog tasks'')),
                            (''tasks'', JList (map JDict ts))])
          \<and> length ts = length [example_record]
          \<and> map_of (ts ! 0) ''assigned_to'' = Some (JStr ''Abel Tuter''))
   \<and> ''request'' \<in> {''assigned_to'', ''assignment_group'', ''request''}
   \<and> \<not> is_sys_id (task_id \<lparr>task_id = ''SCTASK0001639213''\<rparr>)
   \<and> example_remote [] (get_by_number_request example_config example_auth
                          (task_id \<lparr>task_id = ''SCTASK0001639213''\<rparr>))
       = Response (JDict [(''result'', JList (JDict example_record # []))])
   \<and> map_of example_record ''request'' = Some (JStr ''REQ123'')
   \<and> (\<exists>t m. snd (get_catalog_task example_remote example_repr example_config example_auth
                    \<lparr>task_id = ''SCTASK0001639213''\<rparr>)
              = Inr (JDict [(''success'', JBool True), (''message'', JStr m), (''task'', JDict t)])
          \<and> map_of t ''request'' = Some (JStr ''REQ123''))"
proof -
  have field1: "''assigned_to'' \<in> {''assigned_to'', ''assignment_group'', ''request''}"
    by simp
  have field2: "''request'' \<in> {''assigned_to'', ''assignment_group'', ''request''}"
    by simp
  have listed: "example_remote [] (list_request example_config example_auth example_list)
       = Response (JDict [(''result'', JList (map JDict [example_record]))])"
    by (simp add: example_remote_def list_request_def list_query_params_def)
  have result1: "map_of [(''result'', JList (map JDict [example_record]))] ''result''
       = Some (JList (map JDict [example_record]))"
    by simp
  have object: "map_of ([example_record] ! 0) ''assigned_to''
       = Some (JDict [(''display_value'', JStr ''Abel Tuter''), (''value'', JStr ''user123'')])"
    by (simp add: example_record_def)
  have shown: "dict_get [(''display_value'', JStr ''Abel Tuter''), (''value'', JStr ''user123'')]
       ''display_value'' = JStr ''Abel Tuter''"
    by (simp add: dict_get_def)
  have number: "\<not> is_sys_id (task_id \<lparr>task_id = ''SCTASK0001639213''\<rparr>)"
    by (simp add: is_sys_id_def)
  have got: "example_remote [] (get_by_number_request example_config example_auth
                          (task_id \<lparr>task_id = ''SCTASK0001639213''\<rparr>))
       = Response (JDict [(''result'', JList (JDict example_record # []))])"
    by (simp add: example_remote_def get_by_number_request_def)
  have result2: "map_of [(''result'', JList (JDict example_record # []))] ''result''
       = Some (JList (JDict example_record # []))"
    by simp
  have scalar: "map_of example_record ''request'' = Some (JStr ''REQ123'')"
    "\<forall>d. JStr ''REQ123'' \<noteq> JDict d"
    by (simp_all add: example_record_def)
  have zero: "0 < length [example_record]"
    by simp
  from reference_fields_normalised [OF field1, where srv = example_remote
      and config = example_config and am = example_auth and lp = example_list
      and b = "[(''result'', JList (map JDict [example_record]))]" and tds = "[example_record]",
      THEN conjunct1] listed result1
  obtain ts where ts: "snd (list_catalog_tasks example_remote example_config example_auth example_list)
              = Inr (JDict [(''success'', JBool True),
                            (''message'', JStr (''Found '' @ str_nat (length [example_record])
                                                @ '' catalog tasks'')),
                            (''tasks'', JList (map JDict ts))])"
      "length ts = length [example_record]"
      "\<forall>i<length [example_record].
           (\<forall>d. map_of ([example_record] ! i) ''assigned_to'' = Some (JDict d)
              \<longrightarrow> map_of (ts ! i) ''assigned_to'' = Some (dict_get d ''display_value''))
           \<and> (\<forall>v. map_of ([example_record] ! i) ''assigned_to'' = Some v \<and> (\<forall>d. v \<noteq> JDict d)
              \<longrightarrow> map_of (ts ! i) ''assigned_to'' = Some v)"
    by blast
  from ts(3) zero object shown have first: "map_of (ts ! 0) ''assigned_to'' = Some (JStr ''Abel Tuter'')"
    by metis
  from reference_fields_normalised [OF field2, where srv = example_remote
      and config = example_config and am = example_auth
      and gp = "\<lparr>task_id = ''SCTASK0001639213''\<rparr>" and repr = example_repr
      and b' = "[(''result'', JList (JDict example_record # []))]" and td = example_record
      and rest = "[]", THEN conjunct2] number got result2
  obtain t m where t: "snd (get_catalog_task example_remote example_repr example_config example_auth
                    \<lparr>task_id = ''SCTASK0001639213''\<rparr>)
              = Inr (JDict [(''success'', JBool True), (''message'', JStr m), (''task'', JDict t)])"
      "\<forall>v. map_of example_record ''request'' = Some v \<and> (\<forall>d. v \<noteq> JDict d)
                   \<longrightarrow> map_of t ''request'' = Some v"
    by blast
  from t(2) scalar have second: "map_of t ''request'' = Some (JStr ''REQ123'')"
    by blast
  have object': "map_of example_record ''assigned_to''
       = Some (JDict [(''display_value'', JStr ''Abel Tuter''), (''value'', JStr ''user123'')])"
    using object by simp
  from field1 field2 listed object' ts(1,2) first number got scalar(1) t(1) second
  show ?thesis
    by blast
qed

text \<open>
  C10. When the remote table answers \<open>list_catalog_tasks\<close> with a list of records, every
  task returned has exactly the keys \<open>sys_id\<close>, \<open>number\<close>, \<open>short_description\<close>,
  \<open>description\<close>, \<open>state\<close>, \<open>assigned_to\<close>, \<open>assignment_group\<close>, \<open>request\<close>,
  \<open>request_sys_id\<close>, \<open>created_on\<close>, \<open>updated_on\<close>, \<open>due_date\<close> and \<open>priority\<close>, and
  the task that \<open>get_catalog_task\<close> returns for a record has these and \<open>work_notes\<close> and
  \<open>close_notes\<close>. So a field of the record outside this set is dropped. A key whose field
  is missing from the record (\<open>request\<close> for \<open>request_sys_id\<close>, \<open>sys_created_on\<close> for
  \<open>created_on\<close>, \<open>sys_updated_on\<close> for \<open>updated_on\<close>, the field of the same name for the
  others) is there with the value null.
\<close>

theorem normalised_task_keys:
  "(srv [] (list_request config am lp) = Response (JDict b)
      \<and> map_of b ''result'' = Some (JList (map JDict tds)) \<longrightarrow>
      (\<exists>ts. snd (list_catalog_tasks srv config am lp)
              = Inr (JDict [(''success'', JBool True),
                            (''message'', JStr (''Found '' @ str_nat (length tds) @ '' catalog tasks'')),
                            (''tasks'', JList (map JDict ts))])
         \<and> length ts = length tds
         \<and> (\<forall>i<length tds.
               map fst (ts ! i)
                 = [''sys_id'', ''number'', ''short_description'', ''description'', ''state'',
                    ''assigned_to'', ''assignment_group'', ''request'', ''request_sys_id'',
                    ''created_on'', ''updated_on'', ''due_date'', ''priority'']
               \<and> (\<forall>dst src.
                     (dst, src) \<in> set [(''sys_id'', ''sys_id''), (''number'', ''number''),
                        (''short_description'', ''short_description''),
                        (''description'', ''description''), (''state'', ''state''),
                        (''assigned_to'', ''assigned_to''),
                        (''assignment_group'', ''assignment_group''), (''request'', ''request''),
                        (''request_sys_id'', ''request''), (''created_on'', ''sys_created_on''),
                        (''updated_on'', ''sys_updated_on''), (''due_date'', ''due_date''),
                        (''priority'', ''priority'')]
                     \<and> map_of (tds ! i) src = None
                     \<longrightarrow> map_of (ts ! i) dst = Some JNull))))
   \<and> (((\<not> is_sys_id (task_id gp)
          \<and> srv [] (get_by_number_request config am (task_id gp)) = Response (JDict b')
          \<and> map_of b' ''result'' = Some (JList (JDict td # rest)))
        \<or> (is_sys_id (task_id gp)
          \<and> srv [] (get_by_sys_id_request config am (task_id gp)) = Response (JDict b')
          \<and> map_of b' ''result'' = Some (JDict td) \<and> td \<noteq> [])) \<longrightarrow>
        (\<exists>t m. snd (get_catalog_task srv repr config am gp)
                = Inr (JDict [(''success'', JBool True), (''message'', JStr m),
                              (''task'', JDict t)])
           \<and> map fst t
               = [''sys_id'', ''number'', ''short_description'', ''description'', ''state'',
                  ''assigned_to'', ''assignment_group'', ''request'', ''request_sys_id'',
                  ''created_on'', ''updated_on'', ''due_date'', ''priority'',
                  ''work_notes'', ''close_notes'']
           \<and> (\<forall>dst src.
                 (dst, src) \<in> set [(''sys_id'', ''sys_id''), (''number'', ''number''),
                    (''short_description'', ''short_description''),
                    (''description'', ''description''), (''state'', ''state''),
                    (''assigned_to'', ''assigned_to''),
                    (''assignment_group'', ''assignment_group''), (''request'', ''request''),
                    (''request_sys_id'', ''request''), (''created_on'', ''sys_created_on''),
                    (''updated_on'', ''sys_updated_on''), (''due_date'', ''due_date''),
                    (''priority'', ''priority''), (''work_notes'', ''work_notes''),
                    (''close_notes'', ''close_notes'')]
                 \<and> map_of td src = None
                 \<longrightarrow> map_of t dst = Some JNull)))"
proof (intro conjI impI)
  assume listed: "srv [] (list_request config am lp) = Response (JDict b)
      \<and> map_of b ''result'' = Some (JList (map JDict tds))"
  show "\<exists>ts. snd (list_catalog_tasks srv config am lp)
              = Inr (JDict [(''success'', JBool True),
                            (''message'', JStr (''Found '' @ str_nat (length tds) @ '' catalog tasks'')),
                            (''tasks'', JList (map JDict ts))])
         \<and> length ts = length tds
         \<and> (\<forall>i<length tds.
               map fst (ts ! i)
                 = [''sys_id'', ''number'', ''short_description'', ''description'', ''state'',
                    ''assigned_to'', ''assignment_group'', ''request'', ''request_sys_id'',
                    ''created_on'', ''updated_on'', ''due_date'', ''priority'']
               \<and> (\<forall>dst src.
                     (dst, src) \<in> set [(''sys_id'', ''sys_id''), (''number'', ''number''),
                        (''short_description'', ''short_description''),
                        (''description'', ''description''), (''state'', ''state''),
                        (''assigned_to'', ''assigned_to''),
                        (''assignment_group'', ''assignment_group''), (''request'', ''request''),
                        (''request_sys_id'', ''request''), (''created_on'', ''sys_created_on''),
                        (''updated_on'', ''sys_updated_on''), (''due_date'', ''due_date''),
                        (''priority'', ''priority'')]
                     \<and> map_of (tds ! i) src = None
                     \<longrightarrow> map_of (ts ! i) dst = Some JNull))"
  proof (intro exI [of _ "map list_task tds"] conjI allI impI)
    show "snd (list_catalog_tasks srv config am lp)
              = Inr (JDict [(''success'', JBool True),
                            (''message'', JStr (''Found '' @ str_nat (length tds) @ '' catalog tasks'')),
                            (''tasks'', JList (map JDict (map list_task tds)))])"
      using listed list_catalog_tasks_records [of srv config am lp b tds] by (elim conjE)
    show "length (map list_task tds) = length tds"
      by (rule length_map)
  next
    fix i assume "i < length tds"
    then show "map fst (map list_task tds ! i)
                 = [''sys_id'', ''number'', ''short_description'', ''description'', ''state'',
                    ''assigned_to'', ''assignment_group'', ''request'', ''request_sys_id'',
                    ''created_on'', ''updated_on'', ''due_date'', ''priority'']"
      by (simp only: nth_map list_task_keys)
  next
    fix i dst src
    assume "i < length tds"
      and "(dst, src) \<in> set [(''sys_id'', ''sys_id''), (''number'', ''number''),
                        (''short_description'', ''short_description''),
                        (''description'', ''description''), (''state'', ''state''),
                        (''assigned_to'', ''assigned_to''),
                        (''assignment_group'', ''assignment_group''), (''request'', ''request''),
                        (''request_sys_id'', ''request''), (''created_on'', ''sys_created_on''),
                        (''updated_on'', ''sys_updated_on''), (''due_date'', ''due_date''),
                        (''priority'', ''priority'')]
                     \<and> map_of (tds ! i) src = None"
    then show "map_of (map list_task tds ! i) dst = Some JNull"
      by (simp only: nth_map) (elim conjE, rule list_task_missing)
  qed
next
  assume got: "(\<not> is_sys_id (task_id gp)
          \<and> srv [] (get_by_number_request config am (task_id gp)) = Response (JDict b')
          \<and> map_of b' ''result'' = Some (JList (JDict td # rest)))
        \<or> (is_sys_id (task_id gp)
          \<and> srv [] (get_by_sys_id_request config am (task_id gp)) = Response (JDict b')
          \<and> map_of b' ''result'' = Some (JDict td) \<and> td \<noteq> [])"
  show "\<exists>t m. snd (get_catalog_task srv repr config am gp)
                = Inr (JDict [(''success'', JBool True), (''message'', JStr m),
                              (''task'', JDict t)])
           \<and> map fst t
               = [''sys_id'', ''number'', ''short_description'', ''description'', ''state'',
                  ''assigned_to'', ''assignment_group'', ''request'', ''request_sys_id'',
                  ''created_on'', ''updated_on'', ''due_date'', ''priority'',
                  ''work_notes'', ''close_notes'']
           \<and> (\<forall>dst src.
                 (dst, src) \<in> set [(''sys_id'', ''sys_id''), (''number'', ''number''),
                    (''short_description'', ''short_description''),
                    (''description'', ''description''), (''state'', ''state''),
                    (''assigned_to'', ''assigned_to''),
                    (''assignment_group'', ''assignment_group''), (''request'', ''request''),
                    (''request_sys_id'', ''request''), (''created_on'', ''sys_created_on''),
                    (''updated_on'', ''sys_updated_on''), (''due_date'', ''due_date''),
                    (''priority'', ''priority''), (''work_notes'', ''work_notes''),
                    (''close_notes'', ''close_notes'')]
                 \<and> map_of td src = None
                 \<longrightarrow> map_of t dst = Some JNull)"
  proof (intro exI [of _ "get_task td"]
      exI [of _ "''Catalog task '' @ py_str repr (case map_of td ''number'' of
                   Some v \<Rightarrow> v | None \<Rightarrow> JStr (task_id gp)) @ '' found''"]
      conjI allI impI)
    show "snd (get_catalog_task srv repr config am gp)
       = Inr (JDict [(''success'', JBool True),
                     (''message'', JStr (''Catalog task ''
                        @ py_str repr (case map_of td ''number'' of
                                         Some v \<Rightarrow> v | None \<Rightarrow> JStr (task_id gp))
                        @ '' found'')),
                     (''task'', JDict (get_task td))])"
      using got get_by_number_record [of gp srv config am b' td rest repr]
        get_by_sys_id_record [of gp srv config am b' td repr]
      by (elim disjE conjE)
    show "map fst (get_task td)
               = [''sys_id'', ''number'', ''short_description'', ''description'', ''state'',
                  ''assigned_to'', ''assignment_group'', ''request'', ''request_sys_id'',
                  ''created_on'', ''updated_on'', ''due_date'', ''priority'',
                  ''work_notes'', ''close_notes'']"
      by (rule get_task_keys)
  next
    fix dst src
    assume "(dst, src) \<in> set [(''sys_id'', ''sys_id''), (''number'', ''number''),
                    (''short_description'', ''short_description''),
                    (''description'', ''description''), (''state'', ''state''),
                    (''assigned_to'', ''assigned_to''),
                    (''assignment_group'', ''assignment_group''), (''request'', ''request''),
                    (''request_sys_id'', ''request''), (''created_on'', ''sys_created_on''),
                    (''updated_on'', ''sys_updated_on''), (''due_date'', ''due_date''),
                    (''priority'', ''priority''), (''work_notes'', ''work_notes''),
                    (''close_notes'', ''close_notes'')]
                 \<and> map_of td src = None"
    then show "map_of (get_task td) dst = Some JNull"
      by (elim conjE) (rule get_task_missing)
  qed
qed


theorem normalised_task_keys_witness:
  "example_remote [] (list_request example_config example_auth example_list)
       = Response (JDict [(''result'', JList (map JDict [example_record]))])
   \<and> map_of example_record ''sys_class_name'' = Some (JStr ''sc_task'')
   \<and> map_of example_record ''description'' = None
   \<and> (\<exists>ts. snd (list_catalog_tasks example_remote example_config example_auth example_list)
              = Inr (JDict [(''success'', JBool True),
                            (''message'', JStr (''Found '' @ str_nat (length [example_record])
                                                @ '' catalog tasks'')),
                            (''tasks'', JList (map JDict ts))])
          \<and> length ts = length [example_record]
          \<and> map fst (ts ! 0) = [''sys_id'', ''number'', ''short_description'', ''description'', ''state'',
            ''assigned_to'', ''assignment_group'', ''request'', ''request_sys_id'',
            ''created_on'', ''updated_on'', ''due_date'', ''priority'']
          \<and> map_of (ts ! 0) ''description'' = Some JNull)
   \<and> is_sys_id (task_id \<lparr>task_id = ''0123456789abcdef0123456789abcdef''\<rparr>)
   \<and> example_remote [] (get_by_sys_id_request example_config example_auth
                          (task_id \<lparr>task_id = ''0123456789abcdef0123456789abcdef''\<rparr>))
       = Response (JDict [(''result'', JDict example_record)])
   \<and> example_record \<noteq> []
   \<and> map_of example_record ''work_notes'' = None
   \<and> (\<exists>t m. snd (get_catalog_task example_remote example_repr example_config example_auth
                    \<lparr>task_id = ''0123456789abcdef0123456789abcdef''\<rparr>)
              = Inr (JDict [(''success'', JBool True), (''message'', JStr m), (''task'', JDict t)])
          \<and> map fst t = [''sys_id'', ''number'', ''short_description'', ''description'', ''state'',
            ''assigned_to'', ''assignment_group'', ''request'', ''request_sys_id'',
            ''created_on'', ''updated_on'', ''due_date'', ''priority'',
            ''work_notes'', ''close_notes'']
          \<and> map_of t ''work_notes'' = Some JNull)"
proof -
  have listed: "example_remote [] (list_request example_config example_auth example_list)
       = Response (JDict [(''result'', JList (map JDict [example_record]))])"
    by (simp add: example_remote_def list_request_def list_query_params_def)
  have result1: "map_of [(''result'', JList (map JDict [example_record]))] ''result''
       = Some (JList (map JDict [example_record]))"
    by simp
  have extra: "map_of example_record ''sys_class_name'' = Some (JStr ''sc_task'')"
    by (simp add: example_record_def)
  have missing1: "map_of example_record ''description'' = None"
    by (simp add: example_record_def)
  have missing1': "map_of ([example_record] ! 0) ''description'' = None"
    using missing1 by simp
  have pair1: "(''description'', ''description'') \<in> set [(''sys_id'', ''sys_id''), (''number'', ''number''),
            (''short_description'', ''short_description''),
            (''description'', ''description''), (''state'', ''state''),
            (''assigned_to'', ''assigned_to''),
            (''assignment_group'', ''assignment_group''), (''request'', ''request''),
            (''request_sys_id'', ''request''), (''created_on'', ''sys_created_on''),
            (''updated_on'', ''sys_updated_on''), (''due_date'', ''due_date''),
            (''priority'', ''priority'')]"
    by simp
  have zero: "0 < length [example_record]"
    by simp
  have shape: "is_sys_id (task_id \<lparr>task_id = ''0123456789abcdef0123456789abcdef''\<rparr>)"
    by (simp add: is_sys_id_def)
  have got: "example_remote [] (get_by_sys_id_request example_config example_auth
                          (task_id \<lparr>task_id = ''0123456789abcdef0123456789abcdef''\<rparr>))
       = Response (JDict [(''result'', JDict example_record)])"
    by (simp add: example_remote_def get_by_sys_id_request_def)
  have result2: "map_of [(''result'', JDict example_record)] ''result'' = Some (JDict example_record)"
    by simp
  have filled: "example_record \<noteq> []"
    by (simp add: example_record_def)
  have missing2: "map_of example_record ''work_notes'' = None"
    by (simp add: example_record_def)
  have pair2: "(''work_notes'', ''work_notes'') \<in> set [(''sys_id'', ''sys_id''), (''number'', ''number''),
            (''short_description'', ''short_description''),
            (''description'', ''description''), (''state'', ''state''),
            (''assigned_to'', ''assigned_to''),
            (''assignment_group'', ''assignment_group''), (''request'', ''request''),
            (''request_sys_id'', ''request''), (''created_on'', ''sys_created_on''),
            (''updated_on'', ''sys_updated_on''), (''due_date'', ''due_date''),
            (''priority'', ''priority''), (''work_notes'', ''work_notes''),
            (''close_notes'', ''close_notes'')]"
    by simp
  from normalised_task_keys [where srv = example_remote
      and config = example_config and am = example_auth and lp = example_list
      and b = "[(''result'', JList (map JDict [example_record]))]" and tds = "[example_record]",
      THEN conjunct1, rule_format, OF conjI, OF listed result1]
  obtain ts where ts: "snd (list_catalog_tasks example_remote example_config example_auth example_list)
              = Inr (JDict [(''success'', JBool True),
                            (''message'', JStr (''Found '' @ str_nat (length [example_record])
                                                @ '' catalog tasks'')),
                            (''tasks'', JList (map JDict ts))])"
      "length ts = length [example_record]"
      "\<forall>i<length [example_record].
           map fst (ts ! i) = [''sys_id'', ''number'', ''short_description'', ''description'', ''state'',
            ''assigned_to'', ''assignment_group'', ''request'', ''request_sys_id'',
            ''created_on'', ''updated_on'', ''due_date'', ''priority'']
           \<and> (\<forall>dst src. (dst, src) \<in> set [(''sys_id'', ''sys_id''), (''number'', ''number''),
            (''short_description'', ''short_description''),
            (''description'', ''description''), (''state'', ''state''),
            (''assigned_to'', ''assigned_to''),
            (''assignment_group'', ''assignment_group''), (''request'', ''request''),
            (''request_sys_id'', ''request''), (''created_on'', ''sys_created_on''),
            (''updated_on'', ''sys_updated_on''), (''due_date'', ''due_date''),
            (''priority'', ''priority'')] \<and> map_of ([example_record] ! i) src = None
                \<longrightarrow> map_of (ts ! i) dst = Some JNull)"
    by (elim exE conjE)
  note at_zero = ts(3) [rule_format, OF zero]
  note first = at_zero [THEN conjunct1] at_zero [THEN conjunct2]
  have null1: "map_of (ts ! 0) ''description'' = Some JNull"
    by (rule first(2) [rule_format, OF conjI, OF pair1 missing1'])
  from normalised_task_keys [where srv = example_remote
      and config = example_config and am = example_auth
      and gp = "\<lparr>task_id = ''0123456789abcdef0123456789abcdef''\<rparr>" and repr = example_repr
      and b' = "[(''result'', JDict example_record)]" and td = example_record,
      THEN conjunct2, rule_format, OF disjI2, OF conjI, OF shape, OF conjI, OF got, OF conjI,
      OF result2 filled]
  obtain t m where t: "snd (get_catalog_task example_remote example_repr example_config example_auth
                    \<lparr>task_id = ''0123456789abcdef0123456789abcdef''\<rparr>)
              = Inr (JDict [(''success'', JBool True), (''message'', JStr m), (''task'', JDict t)])"
      "map fst t = [''sys_id'', ''number'', ''short_description'', ''description'', ''state'',
            ''assigned_to'', ''assignment_group'', ''request'', ''request_sys_id'',
            ''created_on'', ''updated_on'', ''due_date'', ''priority'',
            ''work_notes'', ''close_notes'']"
      "\<forall>dst src. (dst, src) \<in> set [(''sys_id'', ''sys_id''), (''number'', ''number''),
            (''short_description'', ''short_description''),
            (''description'', ''description''), (''state'', ''state''),
            (''assigned_to'', ''assigned_to''),
            (''assignment_group'', ''assignment_group''), (''request'', ''request''),
            (''request_sys_id'', ''request''), (''created_on'', ''sys_created_on''),
            (''updated_on'', ''sys_updated_on''), (''due_date'', ''due_date''),
            (''priority'', ''priority''), (''work_notes'', ''work_notes''),
            (''close_notes'', ''close_notes'')] \<and> map_of example_record src = None
                \<longrightarrow> map_of t dst = Some JNull"
    by (elim exE conjE)
  have null2: "map_of t ''work_notes'' = Some JNull"
    by (rule t(3) [rule_format, OF conjI, OF pair2 missing2])
  show ?thesis
    apply (intro conjI listed extra missing1 shape got filled missing2)
     apply (rule exI [of _ ts])
     apply (intro conjI ts(1) ts(2) first(1) null1)
    apply (rule exI [of _ t], rule exI [of _ m])
    apply (intro conjI t(1) t(2) null2)
    done
qed

text \<open>
  C6. Whenever a remote call made by a handler fails with a \<^verbatim>\<open>RequestException\<close> (a
  network error, a status outside 2xx), the handler returns a value, it does not raise:
  \<open>success\<close> is false and the message names the operation and carries the text of the
  failure. \<open>list_catalog_tasks\<close> returns an empty \<open>tasks\<close> list with it, and
  \<open>update_catalog_task\<close> tells a failed lookup from a failed update.
\<close>

theorem remote_failures_caught:
  "(\<forall>i e. i < length (fst (list_catalog_tasks srv config am lp))
        \<and> srv (take i (fst (list_catalog_tasks srv config am lp)))
              (fst (list_catalog_tasks srv config am lp) ! i) = RequestException e
      \<longrightarrow> snd (list_catalog_tasks srv config am lp)
            = Inr (JDict [(''success'', JBool False),
                          (''message'', JStr (''Failed to list catalog tasks: '' @ e)),
                          (''tasks'', JList [])]))
   \<and> (\<forall>i e. i < length (fst (get_catalog_task srv repr config am gp))
        \<and> srv (take i (fst (get_catalog_task srv repr config am gp)))
              (fst (get_catalog_task srv repr config am gp) ! i) = RequestException e
      \<longrightarrow> snd (get_catalog_task srv repr config am gp)
            = Inr (JDict [(''success'', JBool False),
                          (''message'', JStr (''Failed to fetch catalog task: '' @ e))]))
   \<and> (\<forall>i e. i < length (fst (update_catalog_task srv repr config am up))
        \<and> srv (take i (fst (update_catalog_task srv repr config am up)))
              (fst (update_catalog_task srv repr config am up) ! i) = RequestException e
      \<longrightarrow> snd (update_catalog_task srv repr config am up)
            = Inr \<lparr>success = False,
                   message = (case meth (fst (update_catalog_task srv repr config am up) ! i) of
                                GET \<Rightarrow> ''Failed to find catalog task: ''
                              | PUT \<Rightarrow> ''Failed to update catalog task: '') @ e,
                   resp_task_id = None, resp_task_number = None\<rparr>)"
proof (intro conjI allI impI)
  fix i e
  assume "i < length (fst (list_catalog_tasks srv config am lp))
        \<and> srv (take i (fst (list_catalog_tasks srv config am lp)))
              (fst (list_catalog_tasks srv config am lp) ! i) = RequestException e"
  then have "srv [] (list_request config am lp) = RequestException e"
    by (auto simp add: list_catalog_tasks_calls)
  then show "snd (list_catalog_tasks srv config am lp)
            = Inr (JDict [(''success'', JBool False),
                          (''message'', JStr (''Failed to list catalog tasks: '' @ e)),
                          (''tasks'', JList [])])"
    by (simp add: list_catalog_tasks_def Let_def)
next
  fix i e
  assume "i < length (fst (get_catalog_task srv repr config am gp))
        \<and> srv (take i (fst (get_catalog_task srv repr config am gp)))
              (fst (get_catalog_task srv repr config am gp) ! i) = RequestException e"
  then have "srv [] (if is_sys_id (task_id gp) then get_by_sys_id_request config am (task_id gp)
        else get_by_number_request config am (task_id gp)) = RequestException e"
    by (auto simp add: get_catalog_task_calls)
  then show "snd (get_catalog_task srv repr config am gp)
            = Inr (JDict [(''success'', JBool False),
                          (''message'', JStr (''Failed to fetch catalog task: '' @ e))])"
    by (simp add: get_catalog_task_def get_failed_def Let_def split: if_splits)
next
  fix i e
  assume "i < length (fst (update_catalog_task srv repr config am up))
        \<and> srv (take i (fst (update_catalog_task srv repr config am up)))
              (fst (update_catalog_task srv repr config am up) ! i) = RequestException e"
  then show "snd (update_catalog_task srv repr config am up)
            = Inr \<lparr>success = False,
                   message = (case meth (fst (update_catalog_task srv repr config am up) ! i) of
                                GET \<Rightarrow> ''Failed to find catalog task: ''
                              | PUT \<Rightarrow> ''Failed to update catalog task: '') @ e,
                   resp_task_id = None, resp_task_number = None\<rparr>"
    using update_catalog_task_failed [of i srv repr config am up e]
    by (simp only: update_failure_def)
qed

theorem remote_failures_caught_witness:
  "0 < length (fst (list_catalog_tasks failing_remote example_config example_auth example_list))
   \<and> failing_remote
        (take 0 (fst (list_catalog_tasks failing_remote example_config example_auth example_list)))
        (fst (list_catalog_tasks failing_remote example_config example_auth example_list) ! 0)
       = RequestException ''503 Server Error: Service Unavailable''
   \<and> snd (list_catalog_tasks failing_remote example_config example_auth example_list)
       = Inr (JDict [(''success'', JBool False),
                     (''message'', JStr (''Failed to list catalog tasks: ''
                        @ ''503 Server Error: Service Unavailable'')),
                     (''tasks'', JList [])])
   \<and> 0 < length (fst (update_catalog_task failing_remote example_repr example_config example_auth
                         example_update))
   \<and> failing_remote
        (take 0 (fst (update_catalog_task failing_remote example_repr example_config example_auth
                        example_update)))
        (fst (update_catalog_task failing_remote example_repr example_config example_auth
                example_update) ! 0)
       = RequestException ''503 Server Error: Service Unavailable''
   \<and> snd (update_catalog_task failing_remote example_repr example_config example_auth example_update)
       = Inr \<lparr>success = False,
              message = ''Failed to find catalog task: '' @ ''503 Server Error: Service Unavailable'',
              resp_task_id = None, resp_task_number = None\<rparr>"
proof -
  have calls1: "0 < length (fst (list_catalog_tasks failing_remote example_config example_auth
      example_list))"
    by (simp add: list_catalog_tasks_calls)
  have down1: "failing_remote
        (take 0 (fst (list_catalog_tasks failing_remote example_config example_auth example_list)))
        (fst (list_catalog_tasks failing_remote example_config example_auth example_list) ! 0)
       = RequestException ''503 Server Error: Service Unavailable''"
    by (simp add: failing_remote_def)
  have run2: "fst (update_catalog_task failing_remote example_repr example_config example_auth
      example_update) = [update_lookup_request example_config example_auth (upd_task_id example_update)]"
    by (simp add: update_catalog_task_def failing_remote_def example_update_def is_sys_id_def Let_def)
  have calls2: "0 < length (fst (update_catalog_task failing_remote example_repr example_config
      example_auth example_update))"
    by (simp add: run2)
  have down2: "failing_remote
        (take 0 (fst (update_catalog_task failing_remote example_repr example_config example_auth
                        example_update)))
        (fst (update_catalog_task failing_remote example_repr example_config example_auth
                example_update) ! 0)
       = RequestException ''503 Server Error: Service Unavailable''"
    by (simp add: failing_remote_def)
  have lookup: "meth (fst (update_catalog_task failing_remote example_repr example_config example_auth
      example_update) ! 0) = GET"
    by (simp add: run2 update_lookup_request_def)
  note caught = remote_failures_caught [where srv = failing_remote and repr = example_repr
      and config = example_config and am = example_auth and lp = example_list
      and up = example_update]
  have out1: "snd (list_catalog_tasks failing_remote example_config example_auth example_list)
       = Inr (JDict [(''success'', JBool False),
                     (''message'', JStr (''Failed to list catalog tasks: ''
                        @ ''503 Server Error: Service Unavailable'')),
                     (''tasks'', JList [])])"
    by (rule caught [THEN conjunct1, rule_format, OF conjI, OF calls1 down1])
  have "snd (update_catalog_task failing_remote example_repr example_config example_auth example_update)
       = Inr \<lparr>success = False,
              message = (case meth (fst (update_catalog_task failing_remote example_repr
                             example_config example_auth example_update) ! 0) of
                           GET \<Rightarrow> ''Failed to find catalog task: ''
                         | PUT \<Rightarrow> ''Failed to update catalog task: '')
                        @ ''503 Server Error: Service Unavailable'',
              resp_task_id = None, resp_task_number = None\<rparr>"
    by (rule caught [THEN conjunct2, THEN conjunct2, rule_format, OF conjI, OF calls2 down2])
  then have out2: "snd (update_catalog_task failing_remote example_repr example_config example_auth
      example_update)
       = Inr \<lparr>success = False,
              message = ''Failed to find catalog task: '' @ ''503 Server Error: Service Unavailable'',
              resp_task_id = None, resp_task_number = None\<rparr>"
    by (simp only: lookup http_method.case)
  show ?thesis
    by (intro conjI calls1 down1 out1 calls2 down2 out2)
qed

text \<open>
  C8. Whatever a handler returns has a boolean \<open>success\<close> and a string \<open>message\<close>.
  \<open>list_catalog_tasks\<close> returns them with a list \<open>tasks\<close>, on success and on failure.
  \<open>get_catalog_task\<close> returns them with an object \<open>task\<close> on success and alone when the
  task is not found or the call fails. \<open>update_catalog_task\<close> returns a
  \<open>CatalogTaskResponse\<close>, whose \<open>task_id\<close> and \<open>task_number\<close> are unset when \<open>success\<close>
  is false.
\<close>

theorem response_shape:
  "(\<forall>out. snd (list_catalog_tasks srv config am lp) = Inr out \<longrightarrow>
      (\<exists>b m ts. out = JDict [(''success'', JBool b), (''message'', JStr m), (''tasks'', JList ts)]))
   \<and> (\<forall>out. snd (get_catalog_task srv repr config am gp) = Inr out \<longrightarrow>
      (\<exists>m t. out = JDict [(''success'', JBool True), (''message'', JStr m), (''task'', JDict t)])
      \<or> (\<exists>m. out = JDict [(''success'', JBool False), (''message'', JStr m)]))
   \<and> (\<forall>out. snd (update_catalog_task srv repr config am up) = Inr out \<longrightarrow>
      (success out \<and> message out = ''Catalog task updated successfully'')
      \<or> (\<not> success out \<and> resp_task_id out = None \<and> resp_task_number out = None))"
proof (intro conjI allI impI)
  fix out
  assume "snd (list_catalog_tasks srv config am lp) = Inr out"
  then show "\<exists>b m ts. out = JDict [(''success'', JBool b), (''message'', JStr m), (''tasks'', JList ts)]"
  proof (cases "srv [] (list_request config am lp)")
    case (RequestException e)
    with \<open>snd (list_catalog_tasks srv config am lp) = Inr out\<close>
    have "out = JDict [(''success'', JBool False),
                       (''message'', JStr (''Failed to list catalog tasks: '' @ e)),
                       (''tasks'', JList [])]"
      by (simp add: list_catalog_tasks_def Let_def)
    then show ?thesis
      by blast
  next
    case (Response data)
    with \<open>snd (list_catalog_tasks srv config am lp) = Inr out\<close> have "list_result data = Inr out"
      by (simp add: list_catalog_tasks_def Let_def)
    from list_result_shape [OF this] show ?thesis
      by blast
  qed
next
  fix out
  assume "snd (get_catalog_task srv repr config am gp) = Inr out"
  then show "(\<exists>m t. out = JDict [(''success'', JBool True), (''message'', JStr m), (''task'', JDict t)])
      \<or> (\<exists>m. out = JDict [(''success'', JBool False), (''message'', JStr m)])"
    using get_found_shape
    by (auto simp add: get_catalog_task_def get_failed_def get_not_found_def Let_def
        split: response.splits sum.splits if_splits)
next
  fix out
  assume "snd (update_catalog_task srv repr config am up) = Inr out"
  then show "(success out \<and> message out = ''Catalog task updated successfully'')
      \<or> (\<not> success out \<and> resp_task_id out = None \<and> resp_task_number out = None)"
    using update_put_shape
    by (auto simp add: update_catalog_task_def update_failure_def Let_def
        split: response.splits sum.splits if_splits)
qed


theorem response_shape_witness:
  "snd (list_catalog_tasks failing_remote example_config example_auth example_list)
     = Inr (JDict [(''success'', JBool False),
                   (''message'', JStr ''Failed to list catalog tasks: 503 Server Error: Service Unavailable''),
                   (''tasks'', JList [])])
   \<and> (\<exists>b m ts. JDict [(''success'', JBool False),
                   (''message'', JStr ''Failed to list catalog tasks: 503 Server Error: Service Unavailable''),
                   (''tasks'', JList [])]
         = JDict [(''success'', JBool b), (''message'', JStr m), (''tasks'', JList ts)])
   \<and> snd (get_catalog_task empty_remote example_repr example_config example_auth
            \<lparr>task_id = ''SCTASK0000000000''\<rparr>)
     = Inr (JDict [(''success'', JBool False),
                   (''message'', JStr ''Catalog task not found: SCTASK0000000000'')])
   \<and> (\<exists>m. JDict [(''success'', JBool False),
                   (''message'', JStr ''Catalog task not found: SCTASK0000000000'')]
         = JDict [(''success'', JBool False), (''message'', JStr m)])
   \<and> snd (update_catalog_task example_remote example_repr example_config example_auth example_update)
     = Inr \<lparr>success = True, message = ''Catalog task updated successfully'',
            resp_task_id = Some ''task123'', resp_task_number = Some ''SCTASK0001639213''\<rparr>
   \<and> success \<lparr>success = True, message = ''Catalog task updated successfully'',
            resp_task_id = Some ''task123'', resp_task_number = Some ''SCTASK0001639213''\<rparr>
   \<and> message \<lparr>success = True, message = ''Catalog task updated successfully'',
            resp_task_id = Some ''task123'', resp_task_number = Some ''SCTASK0001639213''\<rparr>
       = ''Catalog task updated successfully''"
proof -
  have listed: "snd (list_catalog_tasks failing_remote example_config example_auth example_list)
     = Inr (JDict [(''success'', JBool False),
                   (''message'', JStr ''Failed to list catalog tasks: 503 Server Error: Service Unavailable''),
                   (''tasks'', JList [])])"
    by (simp add: list_catalog_tasks_def failing_remote_def Let_def)
  have fetched: "snd (get_catalog_task empty_remote example_repr example_config example_auth
            \<lparr>task_id = ''SCTASK0000000000''\<rparr>)
     = Inr (JDict [(''success'', JBool False),
                   (''message'', JStr ''Catalog task not found: SCTASK0000000000'')])"
    by (simp add: get_catalog_task_def empty_remote_def is_sys_id_def py_get_def get_not_found_def
        Let_def)
  have updated: "snd (update_catalog_task example_remote example_repr example_config example_auth
      example_update)
     = Inr \<lparr>success = True, message = ''Catalog task updated successfully'',
            resp_task_id = Some ''task123'', resp_task_number = Some ''SCTASK0001639213''\<rparr>"
    by (simp add: update_catalog_task_def update_put_def update_put_request_def
        update_lookup_request_def update_result_def example_remote_def example_update_def
        example_record_def is_sys_id_def py_get_def Let_def)
  note shape = response_shape [where srv = failing_remote and config = example_config
      and am = example_auth and lp = example_list, THEN conjunct1, rule_format, OF listed]
    response_shape [where srv = empty_remote and repr = example_repr and config = example_config
      and am = example_auth and gp = "\<lparr>task_id = ''SCTASK0000000000''\<rparr>",
      THEN conjunct2, THEN conjunct1, rule_format, OF fetched]
    response_shape [where srv = example_remote and repr = example_repr and config = example_config
      and am = example_auth and up = example_update,
      THEN conjunct2, THEN conjunct2, rule_format, OF updated]
  from shape(2) have none: "\<exists>m. JDict [(''success'', JBool False),
                   (''message'', JStr ''Catalog task not found: SCTASK0000000000'')]
         = JDict [(''success'', JBool False), (''message'', JStr m)]"
    by simp
  from shape(3) have ok: "success \<lparr>success = True, message = ''Catalog task updated successfully'',
            resp_task_id = Some ''task123'', resp_task_number = Some ''SCTASK0001639213''\<rparr>"
    "message \<lparr>success = True, message = ''Catalog task updated successfully'',
            resp_task_id = Some ''task123'', resp_task_number = Some ''SCTASK0001639213''\<rparr>
       = ''Catalog task updated successfully''"
    by simp_all
  show ?thesis
    by (intro conjI listed shape(1) fetched none updated ok)
qed

end
